theory Spec2Isabelle
  imports Main "HOL-Library.AList"
begin

section \<open>Python values, exceptions and logging\<close>

text \<open>
  The profile manager of the eduVPN client (\<^verbatim>\<open>eduvpn/manager.py\<close>) and the background
  step of its finalize flow (\<^verbatim>\<open>eduvpn/steps/finalize.py\<close>), as functions on an explicit
  state: the connection table and the active connections of NetworkManager, the requests
  sent to it, the files on disk, the log and the callbacks scheduled on the user interface.

  Python values are untyped. A dictionary is an association list (Python keeps insertion
  order, and \<^verbatim>\<open>d[k] = v\<close> is \<^const>\<open>AList.update\<close>); an object is the association
  list of its attributes. Floating-point numbers are left out: no function here computes
  with them.
\<close>

datatype pyval =
    PNone
  | PBool bool
  | PInt int
  | PStr string
  | PList "pyval list"
  | PDict "(string \<times> pyval) list"
  | PObject "(string \<times> pyval) list"

datatype exc_type =
    EduvpnException | KeyError | IndexError | TypeError | ValueError
  | AttributeError | OSError | DBusException | RemoteError | ParseError

text \<open>An exception: its class and the text that \<^verbatim>\<open>str(e)\<close> gives.\<close>

datatype py_error = Raise exc_type string

fun exc_name :: "exc_type \<Rightarrow> string" where
  "exc_name EduvpnException = ''EduvpnException''"
| "exc_name KeyError = ''KeyError''"
| "exc_name IndexError = ''IndexError''"
| "exc_name TypeError = ''TypeError''"
| "exc_name ValueError = ''ValueError''"
| "exc_name AttributeError = ''AttributeError''"
| "exc_name OSError = ''OSError''"
| "exc_name DBusException = ''DBusException''"
| "exc_name RemoteError = ''RemoteError''"
| "exc_name ParseError = ''ParseError''"

fun type_name :: "py_error \<Rightarrow> string" where
  "type_name (Raise t m) = exc_name t"

fun str_exc :: "py_error \<Rightarrow> string" where
  "str_exc (Raise t m) = m"

fun exc_class :: "py_error \<Rightarrow> exc_type" where
  "exc_class (Raise t m) = t"

fun str_nat :: "nat \<Rightarrow> string" where
  "str_nat n =
     (if n < 10 then [''0123456789'' ! n]
      else str_nat (n div 10) @ [''0123456789'' ! (n mod 10)])"

definition quote :: "string \<Rightarrow> string" where
  "quote s = CHR 0x27 # s @ [CHR 0x27]"

datatype log_entry = Info string | Error string

datatype ui_event =
    ErrorHelper string string
  | DialogHide
  | Notify string string
  | UpdateProviders

section \<open>The state: NetworkManager, the file system, the log\<close>

type_synonym path = string

text \<open>
  What \<^verbatim>\<open>GetSettings()\<close> of a NetworkManager connection returns. Every connection has
  the \<^verbatim>\<open>connection\<close> block with its \<^verbatim>\<open>id\<close>, \<^verbatim>\<open>uuid\<close> and \<^verbatim>\<open>type\<close>; the
  \<^verbatim>\<open>vpn\<close> block with its \<^verbatim>\<open>data\<close> dictionary is there for some only, and the keys
  of \<^verbatim>\<open>data\<close> are free.
\<close>

record nm_settings =
  connection_id :: string
  connection_uuid :: string
  connection_type :: string
  vpn_data :: "(string \<times> string) list option"

text \<open>An entry of \<^verbatim>\<open>AddressData\<close>; NetworkManager puts \<^verbatim>\<open>address\<close> in every entry.\<close>

record address_data =
  address :: string
  prefix :: nat

record active_connection =
  Uuid :: string
  State :: int
  Ip4Config_AddressData :: "address_data list"
  Ip6Config_AddressData :: "address_data list"

datatype nm_request =
    ReqAddConnection nm_settings
  | ReqDelete nm_settings
  | ReqDeactivateConnection active_connection

text \<open>
  A file holds text that is no JSON document, or a JSON document, kept as the value that
  \<^verbatim>\<open>json.load\<close> returns for it and that \<^verbatim>\<open>json.dump\<close> writes, or what
  \<^verbatim>\<open>json.dump\<close> had written of a value when it raised: the beginning of a document,
  which is no JSON document.
\<close>

datatype file_content = Text string | Json pyval | Partial pyval

text \<open>
  \<open>nm_rejects\<close>, \<open>remove_denied\<close> and \<open>write_denied\<close> are the faults of the environment:
  the requests that NetworkManager answers with an error (and the error's text), the files
  that the operating system refuses to remove, and the metadata files that it refuses to
  open for writing. \<open>requests\<close> and \<open>removals\<close> record, in order, every request sent to
  NetworkManager and every path given to \<^verbatim>\<open>os.remove\<close>.
\<close>

record state =
  connections :: "nm_settings list"
  active :: "active_connection list"
  nm_rejects :: "nm_request \<Rightarrow> string option"
  requests :: "nm_request list"
  files :: "path \<Rightarrow> file_content option"
  remove_denied :: "path \<Rightarrow> bool"
  write_denied :: "path \<Rightarrow> bool"
  removals :: "path list"
  log :: "log_entry list"
  ui :: "ui_event list"
  ids_made :: nat

definition logger_info :: "string \<Rightarrow> state \<Rightarrow> state" where
  "logger_info msg st = st\<lparr>log := log st @ [Info msg]\<rparr>"

definition logger_error :: "string \<Rightarrow> state \<Rightarrow> state" where
  "logger_error msg st = st\<lparr>log := log st @ [Error msg]\<rparr>"

definition idle_add :: "ui_event \<Rightarrow> state \<Rightarrow> state" where
  "idle_add ev st = st\<lparr>ui := ui st @ [ev]\<rparr>"

subsection \<open>What the manager imports\<close>

text \<open>
  The constants and functions that \<^verbatim>\<open>manager.py\<close> and \<^verbatim>\<open>finalize.py\<close> import from
  modules outside these sources (\<^verbatim>\<open>eduvpn.config\<close>, \<^verbatim>\<open>eduvpn.util\<close>,
  \<^verbatim>\<open>eduvpn.openvpn\<close>, \<^verbatim>\<open>eduvpn.remote\<close>) are parameters: the translation of OpenVPN
  text, the directory and field list of the metadata, the name of a credential file, the
  generator of identifiers, the remote API, and \<^verbatim>\<open>str()\<close> on the arguments of the log
  messages.
\<close>

record externals =
  config_path :: path
  stored_metadata :: "string list"
  make_unique_id :: "nat \<Rightarrow> string"
  format_like_ovpn :: "pyval \<Rightarrow> pyval \<Rightarrow> pyval \<Rightarrow> py_error + pyval"
  parse_ovpn :: "pyval \<Rightarrow> py_error + (string \<times> pyval) list"
  ovpn_to_nm :: "(string \<times> pyval) list \<Rightarrow> string \<Rightarrow> pyval \<Rightarrow> py_error + nm_settings"
  cert_file :: "string \<Rightarrow> string \<Rightarrow> path"
  py_str :: "pyval \<Rightarrow> string"
  create_keypair :: "pyval \<Rightarrow> pyval \<Rightarrow> py_error + (pyval \<times> pyval)"
  get_profile_config :: "pyval \<Rightarrow> pyval \<Rightarrow> pyval \<Rightarrow> py_error + pyval"

text \<open>The argument of \<^verbatim>\<open>"{}".format(v)\<close>: a string is itself.\<close>

definition format_arg :: "externals \<Rightarrow> pyval \<Rightarrow> string" where
  "format_arg X v = (case v of PStr s \<Rightarrow> s | _ \<Rightarrow> py_str X v)"

subsection \<open>The file system\<close>

definition os_path_join :: "path \<Rightarrow> path \<Rightarrow> path" where
  "os_path_join a b =
     (if b \<noteq> [] \<and> hd b = CHR ''/'' then b
      else if a = [] \<or> last a = CHR ''/'' then a @ b
      else a @ ''/'' @ b)"

text \<open>
  \<^verbatim>\<open>os.remove(p)\<close> fails with an \<^verbatim>\<open>OSError\<close> when there is no file at \<open>p\<close> or when
  the file may not be removed.
\<close>

definition remove_fault :: "state \<Rightarrow> path \<Rightarrow> py_error option" where
  "remove_fault st p =
     (if files st p = None then
        Some (Raise OSError (''[Errno 2] No such file or directory: '' @ quote p))
      else if remove_denied st p then
        Some (Raise OSError (''[Errno 13] Permission denied: '' @ quote p))
      else None)"

definition os_remove :: "path \<Rightarrow> state \<Rightarrow> (py_error + unit) \<times> state" where
  "os_remove p st =
     (let st1 = st\<lparr>removals := removals st @ [p]\<rparr> in
      case remove_fault st p of
        Some e \<Rightarrow> (Inl e, st1)
      | None \<Rightarrow> (Inr (), st1\<lparr>files := (files st)(p := None)\<rparr>))"

text \<open>
  The values that JSON can serialise, which are also the values that \<^verbatim>\<open>json.load\<close>
  returns: \<^verbatim>\<open>None\<close>, truth values, numbers, strings, and lists and dictionaries of
  such values. An object is none of them.
\<close>

fun json_serialisable :: "pyval \<Rightarrow> bool" where
  "json_serialisable PNone = True"
| "json_serialisable (PBool b) = True"
| "json_serialisable (PInt i) = True"
| "json_serialisable (PStr s) = True"
| "json_serialisable (PList xs) = list_all json_serialisable xs"
| "json_serialisable (PDict d) = list_all (\<lambda>kv. json_serialisable (snd kv)) d"
| "json_serialisable (PObject a) = False"

text \<open>
  \<^verbatim>\<open>json.load(open(path, 'r'))\<close>: the file must be there and hold a JSON document, the
  serialisation of a value that JSON can serialise.
\<close>

definition json_load_file :: "path \<Rightarrow> state \<Rightarrow> py_error + pyval" where
  "json_load_file p st =
     (case files st p of
        None \<Rightarrow> Inl (Raise OSError (''[Errno 2] No such file or directory: '' @ quote p))
      | Some (Text s) \<Rightarrow> Inl (Raise ValueError ''Expecting value: line 1 column 1 (char 0)'')
      | Some (Json v) \<Rightarrow>
          (if json_serialisable v then Inr v
           else Inl (Raise ValueError ''Expecting value: line 1 column 1 (char 0)''))
      | Some (Partial v) \<Rightarrow>
          Inl (Raise ValueError ''Expecting value: line 1 column 1 (char 0)''))"

text \<open>
  \<^verbatim>\<open>open(path, 'w')\<close>: it fails when the file may not be opened for writing; otherwise
  the file is there and empty, whatever it held.
\<close>

definition open_for_writing :: "path \<Rightarrow> state \<Rightarrow> (py_error + unit) \<times> state" where
  "open_for_writing p st =
     (if write_denied st p then
        (Inl (Raise OSError (''[Errno 13] Permission denied: '' @ quote p)), st)
      else (Inr (), st\<lparr>files := (files st)(p \<mapsto> Text [])\<rparr>))"

text \<open>
  \<^verbatim>\<open>json.dump(v, f)\<close> on the file just opened at \<open>p\<close>: it writes the document piece by
  piece and raises \<^verbatim>\<open>TypeError\<close> at the first value that JSON cannot serialise; what it
  has written by then stays in the file.
\<close>

definition json_dump :: "pyval \<Rightarrow> path \<Rightarrow> state \<Rightarrow> (py_error + unit) \<times> state" where
  "json_dump v p st =
     (if json_serialisable v then (Inr (), st\<lparr>files := (files st)(p \<mapsto> Json v)\<rparr>)
      else (Inl (Raise TypeError ''Object of type object is not JSON serializable''),
            st\<lparr>files := (files st)(p \<mapsto> Partial v)\<rparr>))"

text \<open>\<^verbatim>\<open>with open(path, 'w') as f: json.dump(v, f)\<close>.\<close>

definition json_dump_file :: "pyval \<Rightarrow> path \<Rightarrow> state \<Rightarrow> (py_error + unit) \<times> state" where
  "json_dump_file v p st =
     (case open_for_writing p st of
        (Inl e, st1) \<Rightarrow> (Inl e, st1)
      | (Inr u, st1) \<Rightarrow> json_dump v p st1)"

subsection \<open>Item access\<close>

text \<open>\<^verbatim>\<open>d[k]\<close> on a dictionary of strings.\<close>

definition getitem :: "(string \<times> 'v) list \<Rightarrow> string \<Rightarrow> py_error + 'v" where
  "getitem d k = (case map_of d k of None \<Rightarrow> Inl (Raise KeyError (quote k)) | Some v \<Rightarrow> Inr v)"

text \<open>\<^verbatim>\<open>xs[0]\<close>.\<close>

definition getitem0 :: "'a list \<Rightarrow> py_error + 'a" where
  "getitem0 xs = (case xs of [] \<Rightarrow> Inl (Raise IndexError ''list index out of range'') | x # _ \<Rightarrow> Inr x)"

text \<open>\<^verbatim>\<open>v[k] = x\<close> for a string \<open>k\<close>: only a dictionary takes it.\<close>

fun setitem :: "pyval \<Rightarrow> string \<Rightarrow> pyval \<Rightarrow> py_error + pyval" where
  "setitem (PDict d) k x = Inr (PDict (AList.update k x d))"
| "setitem (PList xs) k x = Inl (Raise TypeError ''list indices must be integers or slices, not str'')"
| "setitem PNone k x = Inl (Raise TypeError (quote ''NoneType'' @ '' object does not support item assignment''))"
| "setitem (PBool b) k x = Inl (Raise TypeError (quote ''bool'' @ '' object does not support item assignment''))"
| "setitem (PInt i) k x = Inl (Raise TypeError (quote ''int'' @ '' object does not support item assignment''))"
| "setitem (PStr s) k x = Inl (Raise TypeError (quote ''str'' @ '' object does not support item assignment''))"
| "setitem (PObject a) k x = Inl (Raise TypeError (quote ''object'' @ '' object does not support item assignment''))"

text \<open>\<^verbatim>\<open>d.pop(k)\<close>: the value and the dictionary without the key.\<close>

definition dict_pop :: "(string \<times> 'v) list \<Rightarrow> string \<Rightarrow> py_error + ('v \<times> (string \<times> 'v) list)" where
  "dict_pop d k =
     (case map_of d k of
        None \<Rightarrow> Inl (Raise KeyError (quote k))
      | Some v \<Rightarrow> Inr (v, AList.delete k d))"

text \<open>\<^verbatim>\<open>settings['vpn']['data'][f]\<close>.\<close>

definition vpn_data_item :: "nm_settings \<Rightarrow> string \<Rightarrow> py_error + string" where
  "vpn_data_item s f =
     (case vpn_data s of
        None \<Rightarrow> Inl (Raise KeyError (quote ''vpn''))
      | Some d \<Rightarrow> getitem d f)"

subsection \<open>NetworkManager\<close>

text \<open>
  \<^verbatim>\<open>NetworkManager.Settings.AddConnection\<close>, \<^verbatim>\<open>connection.Delete()\<close>,
  \<^verbatim>\<open>GetConnectionByUuid\<close> and \<^verbatim>\<open>DeactivateConnection\<close>. A connection is its settings;
  \<open>Delete\<close> takes one occurrence of it out of the table.

  Modelled from the spec: the service itself is not part of the sources. A deleted
  profile "simply becomes unmatchable": deleting a connection also ends its active
  connections. Deactivation is asynchronous: the request is sent, the list of active
  connections changes later.
\<close>

definition AddConnection :: "nm_settings \<Rightarrow> state \<Rightarrow> (py_error + nm_settings) \<times> state" where
  "AddConnection s st =
     (let st1 = st\<lparr>requests := requests st @ [ReqAddConnection s]\<rparr> in
      case nm_rejects st (ReqAddConnection s) of
        Some m \<Rightarrow> (Inl (Raise DBusException m), st1)
      | None \<Rightarrow> (Inr s, st1\<lparr>connections := connections st @ [s]\<rparr>))"

definition Delete :: "nm_settings \<Rightarrow> state \<Rightarrow> (py_error + unit) \<times> state" where
  "Delete c st =
     (let st1 = st\<lparr>requests := requests st @ [ReqDelete c]\<rparr> in
      case nm_rejects st (ReqDelete c) of
        Some m \<Rightarrow> (Inl (Raise DBusException m), st1)
      | None \<Rightarrow>
          (Inr (), st1\<lparr>connections := remove1 c (connections st),
                      active := filter (\<lambda>a. Uuid a \<noteq> connection_uuid c) (active st)\<rparr>))"

definition GetConnectionByUuid :: "string \<Rightarrow> state \<Rightarrow> py_error + nm_settings" where
  "GetConnectionByUuid uuid st =
     (case find (\<lambda>c. connection_uuid c = uuid) (connections st) of
        None \<Rightarrow> Inl (Raise DBusException ''No connection with the UUID was found.'')
      | Some c \<Rightarrow> Inr c)"

definition DeactivateConnection :: "active_connection \<Rightarrow> state \<Rightarrow> (py_error + unit) \<times> state" where
  "DeactivateConnection a st =
     (let st1 = st\<lparr>requests := requests st @ [ReqDeactivateConnection a]\<rparr> in
      case nm_rejects st (ReqDeactivateConnection a) of
        Some m \<Rightarrow> (Inl (Raise DBusException m), st1)
      | None \<Rightarrow> (Inr (), st1))"

section \<open>The profile manager\<close>

subsection \<open>\<^verbatim>\<open>insert_config\<close>\<close>

definition insert_config :: "nm_settings \<Rightarrow> state \<Rightarrow> (py_error + nm_settings) \<times> state" where
  "insert_config settings st =
     (let name = connection_id settings;
          st1 = logger_info (''generating or updating OpenVPN configuration with name '' @ name) st
      in AddConnection settings st1)"

subsection \<open>\<^verbatim>\<open>delete_provider\<close>\<close>

text \<open>
  One round of the loop over \<^verbatim>\<open>['ca', 'cert', 'key', 'ta']\<close>: the path is looked up
  outside the \<^verbatim>\<open>try\<close>, so a missing key is raised; \<^verbatim>\<open>os.remove\<close> is inside it, and
  \<^verbatim>\<open>except (IOError, OSError)\<close> logs its failure and goes on (\<^verbatim>\<open>IOError\<close> is
  \<^verbatim>\<open>OSError\<close>).
\<close>

definition remove_certificate :: "nm_settings \<Rightarrow> string \<Rightarrow> state \<Rightarrow> (py_error + unit) \<times> state" where
  "remove_certificate conn f st =
     (case vpn_data_item conn f of
        Inl e \<Rightarrow> (Inl e, st)
      | Inr p \<Rightarrow>
          (let st1 = logger_info (''removing certificate '' @ p) st in
           case os_remove p st1 of
             (Inr u, st2) \<Rightarrow> (Inr (), st2)
           | (Inl e, st2) \<Rightarrow>
               if exc_class e = OSError
               then (Inr (), logger_error (''can't remove certificate '' @ p @ '': '' @ str_exc e) st2)
               else (Inl e, st2)))"

fun remove_certificates :: "nm_settings \<Rightarrow> string list \<Rightarrow> state \<Rightarrow> (py_error + unit) \<times> state" where
  "remove_certificates conn [] st = (Inr (), st)"
| "remove_certificates conn (f # fs) st =
     (case remove_certificate conn f st of
        (Inl e, st1) \<Rightarrow> (Inl e, st1)
      | (Inr u, st1) \<Rightarrow> remove_certificates conn fs st1)"

definition delete_provider :: "externals \<Rightarrow> string \<Rightarrow> state \<Rightarrow> (py_error + unit) \<times> state" where
  "delete_provider X uuid st0 =
     (let st = logger_info (''deleting profile with uuid '' @ uuid @ '' using NetworkManager'') st0;
          all_connections = connections st;
          conns = filter (\<lambda>c. connection_uuid c = uuid) all_connections
      in
      if length conns \<noteq> 1 then
        (Inl (Raise EduvpnException
               (str_nat (length conns) @ '' connections matching uid '' @ uuid)), st)
      else
        (let conn = hd conns;
             st1 = logger_info (''removing certificates for '' @ uuid) st
         in
         case remove_certificates conn [''ca'', ''cert'', ''key'', ''ta''] st1 of
           (Inl e, st2) \<Rightarrow> (Inl e, st2)
         | (Inr u, st2) \<Rightarrow>
             (case Delete conn st2 of
                (Inl e, st3) \<Rightarrow>
                  (Inl e, logger_error (''can't remove networkmanager connection: '' @ str_exc e) st3)
              | (Inr u, st3) \<Rightarrow>
                  (let metadata = os_path_join (config_path X) (uuid @ ''.json'');
                       st4 = logger_info (''deleting metadata file '' @ metadata) st3
                   in
                   case os_remove metadata st4 of
                     (Inl e, st5) \<Rightarrow>
                       (Inr (), logger_error (''can't remove ovpn file: '' @ str_exc e) st5)
                   | (Inr u, st5) \<Rightarrow> (Inr (), st5)))))"

subsection \<open>\<^verbatim>\<open>list_active\<close>, \<^verbatim>\<open>disconnect_provider\<close>, \<^verbatim>\<open>is_provider_connected\<close>\<close>

definition list_active :: "state \<Rightarrow> active_connection list \<times> state" where
  "list_active st = (active st, logger_info ''getting list of active connections'' st)"

fun deactivate_all :: "active_connection list \<Rightarrow> state \<Rightarrow> (py_error + unit) \<times> state" where
  "deactivate_all [] st = (Inr (), st)"
| "deactivate_all (conn # conns) st =
     (case DeactivateConnection conn st of
        (Inl e, st1) \<Rightarrow> (Inl e, st1)
      | (Inr u, st1) \<Rightarrow> deactivate_all conns st1)"

definition disconnect_provider :: "string \<Rightarrow> state \<Rightarrow> (py_error + unit) \<times> state" where
  "disconnect_provider uuid st0 =
     (let st = logger_info (''Disconnecting profile with uuid '' @ uuid @ '' using NetworkManager'') st0;
          conns = filter (\<lambda>i. Uuid i = uuid) (active st)
      in
      if length conns = 0 then
        (Inl (Raise EduvpnException (''no active connection found with uuid '' @ uuid)), st)
      else deactivate_all conns st)"

text \<open>
  The loop of \<^verbatim>\<open>is_provider_connected\<close>: the first active connection with the uuid
  decides; when none has it the function falls off its end and returns \<^verbatim>\<open>None\<close>.
\<close>

fun first_active :: "string \<Rightarrow> active_connection list \<Rightarrow> py_error + (string \<times> string) option" where
  "first_active uuid [] = Inr None"
| "first_active uuid (a # as) =
     (if uuid = Uuid a then
        (if State a = 2 then
           (case getitem0 (Ip4Config_AddressData a) of
              Inl e \<Rightarrow> Inl e
            | Inr d4 \<Rightarrow>
                (case getitem0 (Ip6Config_AddressData a) of
                   Inl e \<Rightarrow> Inl e
                 | Inr d6 \<Rightarrow> Inr (Some (address d4, address d6))))
         else Inr (Some ('''', '''')))
      else first_active uuid as)"

definition is_provider_connected ::
  "string \<Rightarrow> state \<Rightarrow> (py_error + (string \<times> string) option) \<times> state" where
  "is_provider_connected uuid st =
     (case list_active st of (actives, st1) \<Rightarrow> (first_active uuid actives, st1))"

subsection \<open>The helpers of \<^verbatim>\<open>eduvpn.io\<close>\<close>

text \<open>
  Modelled from the spec: \<^verbatim>\<open>write_cert\<close>, \<^verbatim>\<open>store_metadata\<close> and \<^verbatim>\<open>mkdir_p\<close> are
  not part of the sources. The Credential Writer "persists one of certificate, private
  key, CA certificate, TLS-auth key for the given profile id into a per-kind file path
  derived deterministically from id and kind, and returns the path"; re-writing
  overwrites. The Metadata Store persists the JSON object to
  \<^verbatim>\<open><config_dir>/<id>.json\<close>; it writes the file as \<^verbatim>\<open>update_token\<close> does, and
  what that raises it raises. Directories are not part of the state, so \<^verbatim>\<open>mkdir_p\<close>
  leaves it as it is.
\<close>

definition write_cert :: "externals \<Rightarrow> pyval \<Rightarrow> string \<Rightarrow> string \<Rightarrow> state \<Rightarrow> (py_error + path) \<times> state" where
  "write_cert X content kind unique_name st =
     (case content of
        PStr s \<Rightarrow>
          (let p = cert_file X kind unique_name
           in (Inr p, st\<lparr>files := (files st)(p \<mapsto> Text s)\<rparr>))
      | _ \<Rightarrow> (Inl (Raise TypeError ''write() argument must be str''), st))"

definition store_metadata :: "externals \<Rightarrow> string \<Rightarrow> (string \<times> pyval) list \<Rightarrow> state
    \<Rightarrow> (py_error + unit) \<times> state" where
  "store_metadata X uuid store st =
     json_dump_file (PDict store) (os_path_join (config_path X) (uuid @ ''.json'')) st"

definition mkdir_p :: "path \<Rightarrow> state \<Rightarrow> state" where
  "mkdir_p p st = st"

subsection \<open>\<^verbatim>\<open>list_providers\<close>\<close>

definition placeholder :: "nm_settings \<Rightarrow> pyval" where
  "placeholder conn =
     PDict [(''uuid'', PStr (connection_uuid conn)),
            (''display_name'', PStr (connection_id conn)),
            (''icon_data'', PNone),
            (''connection_type'', PStr ''unknown'')]"

text \<open>
  The generator, run to its end: the list of what it yields. The \<^verbatim>\<open>try\<close> holds the
  whole load of the metadata file, and \<^verbatim>\<open>except Exception\<close> takes every failure of it.
\<close>

fun yield_providers :: "externals \<Rightarrow> nm_settings list \<Rightarrow> state \<Rightarrow> pyval list \<times> state" where
  "yield_providers X [] st = ([], st)"
| "yield_providers X (conn # conns) st =
     (case json_load_file (os_path_join (config_path X) (connection_uuid conn @ ''.json'')) st of
        Inl e \<Rightarrow>
          (let st1 = logger_error (''can't load metadata file: '' @ str_exc e) st
           in case yield_providers X conns st1 of (ys, st2) \<Rightarrow> (placeholder conn # ys, st2))
      | Inr metadata \<Rightarrow>
          (case yield_providers X conns st of (ys, st2) \<Rightarrow> (metadata # ys, st2)))"

definition list_providers :: "externals \<Rightarrow> state \<Rightarrow> pyval list \<times> state" where
  "list_providers X st =
     (let all_connections = connections st;
          vpn_connections = filter (\<lambda>c. connection_type c = ''vpn'') all_connections;
          st1 = logger_info (''There are '' @ str_nat (length vpn_connections)
                              @ '' VPN connections in networkmanager'') st
      in yield_providers X vpn_connections st1)"

subsection \<open>\<^verbatim>\<open>store_provider\<close>\<close>

text \<open>\<^verbatim>\<open>{i: l[i] for i in stored_metadata}\<close>.\<close>

fun select_items :: "(string \<times> pyval) list \<Rightarrow> string list \<Rightarrow> (string \<times> pyval) list
    \<Rightarrow> py_error + (string \<times> pyval) list" where
  "select_items l [] acc = Inr acc"
| "select_items l (i # is) acc =
     (case getitem l i of
        Inl e \<Rightarrow> Inl e
      | Inr v \<Rightarrow> select_items l is (AList.update i v acc))"

text \<open>The settings as the dictionary that \<^verbatim>\<open>locals()\<close> holds under \<^verbatim>\<open>nm_config\<close>.\<close>

definition settings_dict :: "nm_settings \<Rightarrow> pyval" where
  "settings_dict s =
     PDict ((''connection'',
             PDict [(''id'', PStr (connection_id s)),
                    (''uuid'', PStr (connection_uuid s)),
                    (''type'', PStr (connection_type s))])
            # (case vpn_data s of
                 None \<Rightarrow> []
               | Some d \<Rightarrow> [(''vpn'', PDict [(''data'', PDict (map (\<lambda>(k, v). (k, PStr v)) d))])]))"

text \<open>\<^verbatim>\<open>nm_config['vpn']['data'].update({'cert': .., 'key': .., 'ca': .., 'ta': ..})\<close>\<close>

definition update_paths :: "string \<Rightarrow> string \<Rightarrow> string \<Rightarrow> string \<Rightarrow> (string \<times> string) list
    \<Rightarrow> (string \<times> string) list" where
  "update_paths cert_path key_path ca_path ta_path d =
     AList.update ''ta'' ta_path
       (AList.update ''ca'' ca_path
         (AList.update ''key'' key_path
           (AList.update ''cert'' cert_path d)))"

definition store_provider ::
  "externals \<Rightarrow> pyval \<Rightarrow> pyval \<Rightarrow> pyval \<Rightarrow> pyval \<Rightarrow> pyval \<Rightarrow> pyval \<Rightarrow> pyval \<Rightarrow> pyval
     \<Rightarrow> pyval \<Rightarrow> pyval \<Rightarrow> pyval \<Rightarrow> pyval \<Rightarrow> pyval \<Rightarrow> state \<Rightarrow> (py_error + string) \<times> state" where
  "store_provider X api_base_uri profile_id display_name token connection_type' authorization_type
       profile_display_name two_factor cert key config icon_data instance_base_uri st0 =
     (let st = logger_info (''storing profile with name '' @ format_arg X display_name
                             @ '' using NetworkManager'') st0;
          uuid = make_unique_id X (ids_made st);
          sta = st\<lparr>ids_made := Suc (ids_made st)\<rparr>
      in
      case format_like_ovpn X config cert key of
        Inl e \<Rightarrow> (Inl e, sta)
      | Inr ovpn_text \<Rightarrow>
      (case parse_ovpn X ovpn_text of
        Inl e \<Rightarrow> (Inl e, sta)
      | Inr config_dict \<Rightarrow>
      (case write_cert X cert ''cert'' uuid sta of
        (Inl e, st1) \<Rightarrow> (Inl e, st1)
      | (Inr cert_path, st1) \<Rightarrow>
      (case write_cert X key ''key'' uuid st1 of
        (Inl e, st2) \<Rightarrow> (Inl e, st2)
      | (Inr key_path, st2) \<Rightarrow>
      (case dict_pop config_dict ''ca'' of
        Inl e \<Rightarrow> (Inl e, st2)
      | Inr (ca, config_dict1) \<Rightarrow>
      (case write_cert X ca ''ca'' uuid st2 of
        (Inl e, st3) \<Rightarrow> (Inl e, st3)
      | (Inr ca_path, st3) \<Rightarrow>
      (case dict_pop config_dict1 ''tls-auth'' of
        Inl e \<Rightarrow> (Inl e, st3)
      | Inr (ta, config_dict2) \<Rightarrow>
      (case write_cert X ta ''ta'' uuid st3 of
        (Inl e, st4) \<Rightarrow> (Inl e, st4)
      | (Inr ta_path, st4) \<Rightarrow>
      (case ovpn_to_nm X config_dict2 uuid display_name of
        Inl e \<Rightarrow> (Inl e, st4)
      | Inr nm_config \<Rightarrow>
      (let st5 = mkdir_p (config_path X) st4;
           l = [(''api_base_uri'', api_base_uri), (''profile_id'', profile_id),
                (''display_name'', display_name), (''token'', token),
                (''connection_type'', connection_type'),
                (''authorization_type'', authorization_type),
                (''profile_display_name'', profile_display_name),
                (''two_factor'', two_factor), (''cert'', cert), (''key'', key),
                (''config'', config), (''icon_data'', icon_data),
                (''instance_base_uri'', instance_base_uri),
                (''uuid'', PStr uuid), (''ovpn_text'', ovpn_text),
                (''config_dict'', PDict config_dict2),
                (''cert_path'', PStr cert_path), (''key_path'', PStr key_path),
                (''ca_path'', PStr ca_path), (''ta_path'', PStr ta_path),
                (''nm_config'', settings_dict nm_config)]
       in
       case select_items l (stored_metadata X) [] of
         Inl e \<Rightarrow> (Inl e, st5)
       | Inr store \<Rightarrow>
       (case store_metadata X uuid store st5 of
          (Inl e, st6) \<Rightarrow> (Inl e, st6)
        | (Inr u, st6) \<Rightarrow>
        (case vpn_data nm_config of
          None \<Rightarrow> (Inl (Raise KeyError (quote ''vpn'')), st6)
        | Some d \<Rightarrow>
        (let nm_config1 =
               nm_config\<lparr>vpn_data := Some (update_paths cert_path key_path ca_path ta_path d)\<rparr>
         in
         case insert_config nm_config1 st6 of
           (Inl e, st7) \<Rightarrow> (Inl e, st7)
         | (Inr c, st7) \<Rightarrow> (Inr uuid, st7))))))))))))))"

subsection \<open>\<^verbatim>\<open>update_config_provider\<close>\<close>

text \<open>
  In \<^verbatim>\<open>nm_config['vpn']['data'].update({...})\<close> Python evaluates the dictionary to
  update first, then the entries of the argument from left to right.
\<close>

definition update_config_provider ::
  "externals \<Rightarrow> string \<Rightarrow> pyval \<Rightarrow> pyval \<Rightarrow> state \<Rightarrow> (py_error + unit) \<times> state" where
  "update_config_provider X uuid display_name config st0 =
     (let st = logger_info (''updating config for '' @ format_arg X display_name
                             @ '' ('' @ uuid @ '')'') st0
      in
      case parse_ovpn X config of
        Inl e \<Rightarrow> (Inl e, st)
      | Inr config_dict \<Rightarrow>
      (case dict_pop config_dict ''ca'' of
        Inl e \<Rightarrow> (Inl e, st)
      | Inr (ca, config_dict1) \<Rightarrow>
      (case write_cert X ca ''ca'' uuid st of
        (Inl e, st1) \<Rightarrow> (Inl e, st1)
      | (Inr ca_path, st1) \<Rightarrow>
      (case dict_pop config_dict1 ''tls-auth'' of
        Inl e \<Rightarrow> (Inl e, st1)
      | Inr (ta, config_dict2) \<Rightarrow>
      (case write_cert X ta ''ta'' uuid st1 of
        (Inl e, st2) \<Rightarrow> (Inl e, st2)
      | (Inr ta_path, st2) \<Rightarrow>
      (case ovpn_to_nm X config_dict2 uuid display_name of
        Inl e \<Rightarrow> (Inl e, st2)
      | Inr nm_config \<Rightarrow>
      (case GetConnectionByUuid uuid st2 of
        Inl e \<Rightarrow> (Inl e, st2)
      | Inr old_conn \<Rightarrow>
      (let old_settings = old_conn in
       case vpn_data nm_config of
         None \<Rightarrow> (Inl (Raise KeyError (quote ''vpn'')), st2)
       | Some d \<Rightarrow>
       (case vpn_data_item old_settings ''cert'' of
         Inl e \<Rightarrow> (Inl e, st2)
       | Inr old_cert \<Rightarrow>
       (case vpn_data_item old_settings ''key'' of
         Inl e \<Rightarrow> (Inl e, st2)
       | Inr old_key \<Rightarrow>
       (let nm_config1 =
              nm_config\<lparr>vpn_data := Some (update_paths old_cert old_key ca_path ta_path d)\<rparr>
        in
        case Delete old_conn st2 of
          (Inl e, st3) \<Rightarrow> (Inl e, st3)
        | (Inr u, st3) \<Rightarrow>
        (case insert_config nm_config1 st3 of
          (Inl e, st4) \<Rightarrow> (Inl e, st4)
        | (Inr c, st4) \<Rightarrow> (Inr (), st4)))))))))))))"

subsection \<open>\<^verbatim>\<open>update_token\<close>\<close>

definition update_token :: "externals \<Rightarrow> string \<Rightarrow> pyval \<Rightarrow> state \<Rightarrow> (py_error + unit) \<times> state" where
  "update_token X uuid token st0 =
     (let st = logger_info (''writing new token information for '' @ uuid) st0;
          path = os_path_join (config_path X) (uuid @ ''.json'')
      in
      case json_load_file path st of
        Inl e \<Rightarrow> (Inl e, st)
      | Inr metadata \<Rightarrow>
      (case setitem metadata ''token'' token of
        Inl e \<Rightarrow> (Inl e, st)
      | Inr metadata1 \<Rightarrow> json_dump_file metadata1 path st))"

section \<open>The finalize step\<close>

subsection \<open>Attributes and calls\<close>

definition getattr :: "pyval \<Rightarrow> string \<Rightarrow> py_error + pyval" where
  "getattr v k =
     (case v of
        PObject a \<Rightarrow>
          (case map_of a k of
             None \<Rightarrow> Inl (Raise AttributeError (''object has no attribute '' @ quote k))
           | Some x \<Rightarrow> Inr x)
      | _ \<Rightarrow> Inl (Raise AttributeError (''object has no attribute '' @ quote k)))"

definition setattr :: "pyval \<Rightarrow> string \<Rightarrow> pyval \<Rightarrow> py_error + pyval" where
  "setattr v k x =
     (case v of
        PObject a \<Rightarrow> Inr (PObject (AList.update k x a))
      | _ \<Rightarrow> Inl (Raise AttributeError (''object has no attribute '' @ quote k)))"

text \<open>
  How Python binds the positional arguments of a call to the parameters of a function
  that has neither defaults nor \<^verbatim>\<open>*args\<close>: one argument for each parameter, or a
  \<^verbatim>\<open>TypeError\<close> before the body runs.
\<close>

fun comma_names :: "string list \<Rightarrow> string" where
  "comma_names [] = []"
| "comma_names [a] = ''and '' @ quote a"
| "comma_names (a # b # r) = quote a @ '', '' @ comma_names (b # r)"

fun argument_names :: "string list \<Rightarrow> string" where
  "argument_names [] = []"
| "argument_names [a] = quote a"
| "argument_names [a, b] = quote a @ '' and '' @ quote b"
| "argument_names (a # b # c # r) = comma_names (a # b # c # r)"

definition plural :: "nat \<Rightarrow> string" where
  "plural n = (if n = 1 then [] else ''s'')"

definition bind_positional :: "string \<Rightarrow> string list \<Rightarrow> pyval list \<Rightarrow> py_error + (string \<times> pyval) list" where
  "bind_positional fname params args =
     (if length args < length params then
        (let missing = drop (length args) params in
         Inl (Raise TypeError
               (fname @ ''() missing '' @ str_nat (length missing)
                @ '' required positional argument'' @ plural (length missing) @ '': ''
                @ argument_names missing)))
      else if length params < length args then
        Inl (Raise TypeError
              (fname @ ''() takes '' @ str_nat (length params) @ '' positional argument''
               @ plural (length params) @ '' but '' @ str_nat (length args)
               @ (if length args = 1 then '' was given'' else '' were given'')))
      else Inr (zip params args))"

definition store_provider_params :: "string list" where
  "store_provider_params =
     [''api_base_uri'', ''profile_id'', ''display_name'', ''token'', ''connection_type'',
      ''authorization_type'', ''profile_display_name'', ''two_factor'', ''cert'', ''key'',
      ''config'', ''icon_data'', ''instance_base_uri'']"

text \<open>The call \<^verbatim>\<open>store_provider(*args)\<close>.\<close>

definition call_store_provider :: "externals \<Rightarrow> pyval list \<Rightarrow> state \<Rightarrow> (py_error + string) \<times> state" where
  "call_store_provider X args st =
     (case bind_positional ''store_provider'' store_provider_params args of
        Inl e \<Rightarrow> (Inl e, st)
      | Inr l \<Rightarrow>
          (let a = map snd l in
           store_provider X (a ! 0) (a ! 1) (a ! 2) (a ! 3) (a ! 4) (a ! 5) (a ! 6) (a ! 7)
             (a ! 8) (a ! 9) (a ! 10) (a ! 11) (a ! 12) st))"

subsection \<open>\<^verbatim>\<open>_background\<close>\<close>

text \<open>The first \<^verbatim>\<open>try\<close> block: the key pair and the profile configuration, put on \<open>meta\<close>.\<close>

definition fetch :: "externals \<Rightarrow> pyval \<Rightarrow> pyval \<Rightarrow> py_error + pyval" where
  "fetch X meta oauth =
     (case getattr meta ''api_base_uri'' of
        Inl e \<Rightarrow> Inl e
      | Inr uri \<Rightarrow>
      (case create_keypair X oauth uri of
        Inl e \<Rightarrow> Inl e
      | Inr (cert, key) \<Rightarrow>
      (case setattr meta ''cert'' cert of
        Inl e \<Rightarrow> Inl e
      | Inr meta1 \<Rightarrow>
      (case setattr meta1 ''key'' key of
        Inl e \<Rightarrow> Inl e
      | Inr meta2 \<Rightarrow>
      (case getattr meta2 ''api_base_uri'' of
        Inl e \<Rightarrow> Inl e
      | Inr uri2 \<Rightarrow>
      (case getattr meta2 ''profile_id'' of
        Inl e \<Rightarrow> Inl e
      | Inr profile_id \<Rightarrow>
      (case get_profile_config X oauth uri2 profile_id of
        Inl e \<Rightarrow> Inl e
      | Inr config \<Rightarrow> setattr meta2 ''config'' config)))))))"

text \<open>
  The \<^verbatim>\<open>else\<close> of the first \<^verbatim>\<open>try\<close>: \<^verbatim>\<open>store_provider(meta)\<close> and the notification are
  in the second \<^verbatim>\<open>try\<close>; its \<^verbatim>\<open>except Exception\<close> shows "can't store configuration",
  hides the dialog and raises again.
\<close>

definition store_and_notify :: "externals \<Rightarrow> pyval \<Rightarrow> state \<Rightarrow> (py_error + unit) \<times> state" where
  "store_and_notify X meta st =
     (case call_store_provider X [meta] st of
        (Inl e, st1) \<Rightarrow> (Inl e, st1)
      | (Inr uuid, st1) \<Rightarrow>
          (case getattr meta ''display_name'' of
             Inl e \<Rightarrow> (Inl e, st1)
           | Inr display_name \<Rightarrow>
               (Inr (), idle_add (Notify ''eduVPN provider added''
                                   (''added provider '' @ quote (format_arg X display_name))) st1)))"

definition background :: "externals \<Rightarrow> pyval \<Rightarrow> pyval \<Rightarrow> state \<Rightarrow> (py_error + unit) \<times> state" where
  "background X meta oauth st =
     (case fetch X meta oauth of
        Inl e \<Rightarrow>
          (Inl e, idle_add DialogHide
                    (idle_add (ErrorHelper ''can't finalize configuration''
                                 (type_name e @ '': '' @ str_exc e)) st))
      | Inr meta1 \<Rightarrow>
          (case store_and_notify X meta1 st of
             (Inl e, st1) \<Rightarrow>
               (Inl e, idle_add DialogHide
                         (idle_add (ErrorHelper ''can't store configuration''
                                      (type_name e @ '' '' @ str_exc e)) st1))
           | (Inr u, st1) \<Rightarrow>
               (Inr (), idle_add UpdateProviders (idle_add DialogHide st1))))"

section \<open>A concrete system\<close>

text \<open>
  One profile \<open>u1\<close> beside a wireless connection: its CA file is missing, its key file
  may not be removed, and the profile is connected.
\<close>

definition example_externals :: externals where
  "example_externals =
     \<lparr>config_path = ''/cfg'',
      stored_metadata = [''uuid'', ''display_name'', ''token''],
      make_unique_id = (\<lambda>n. ''id'' @ str_nat n),
      format_like_ovpn = (\<lambda>config cert key. Inr config),
      parse_ovpn = (\<lambda>v. case v of
          PStr s \<Rightarrow> Inr [(''remote'', PStr s), (''ca'', PStr ''CA2''), (''tls-auth'', PStr ''TA2'')]
        | _ \<Rightarrow> Inl (Raise ParseError ''no text'')),
      ovpn_to_nm = (\<lambda>d uuid name.
          Inr \<lparr>connection_id = ''New'', connection_uuid = uuid, connection_type = ''vpn'',
               vpn_data = Some [(''remote'', ''vpn.example.org'')]\<rparr>),
      cert_file = (\<lambda>kind uuid. ''/c/'' @ uuid @ ''_'' @ kind),
      py_str = (\<lambda>v. ''?''),
      create_keypair = (\<lambda>oauth uri. Inr (PStr ''CERT'', PStr ''KEY'')),
      get_profile_config = (\<lambda>oauth uri profile. Inr (PStr ''vpn.example.org''))\<rparr>"

definition example_conn :: nm_settings where
  "example_conn =
     \<lparr>connection_id = ''Test'', connection_uuid = ''u1'', connection_type = ''vpn'',
      vpn_data = Some [(''ca'', ''/c/u1_ca''), (''cert'', ''/c/u1_cert''),
                       (''key'', ''/c/u1_key''), (''ta'', ''/c/u1_ta'')]\<rparr>"

definition example_wifi :: nm_settings where
  "example_wifi =
     \<lparr>connection_id = ''Home'', connection_uuid = ''u2'', connection_type = ''802-11-wireless'',
      vpn_data = None\<rparr>"

definition example_active :: active_connection where
  "example_active =
     \<lparr>Uuid = ''u1'', State = 2,
      Ip4Config_AddressData = [\<lparr>address = ''10.0.0.5'', prefix = 24\<rparr>],
      Ip6Config_AddressData = [\<lparr>address = ''fd00::5'', prefix = 64\<rparr>]\<rparr>"

definition example_metadata :: pyval where
  "example_metadata =
     PDict [(''uuid'', PStr ''u1''), (''display_name'', PStr ''Test''),
            (''token'', PDict [(''access_token'', PStr ''old'')])]"

definition example_state :: state where
  "example_state =
     \<lparr>connections = [example_wifi, example_conn],
      active = [example_active],
      nm_rejects = (\<lambda>r. None),
      requests = [],
      files = map_of [(''/c/u1_cert'', Text ''CERT''), (''/c/u1_key'', Text ''KEY''),
                      (''/c/u1_ta'', Text ''TA''), (''/cfg/u1.json'', Json example_metadata)],
      remove_denied = (\<lambda>p. p = ''/c/u1_key''),
      write_denied = (\<lambda>p. False),
      removals = [],
      log = [],
      ui = [],
      ids_made = 0\<rparr>"

text \<open>The same system with a metadata file that holds the JSON array \<^verbatim>\<open>[]\<close>.\<close>

definition array_metadata_state :: state where
  "array_metadata_state =
     example_state\<lparr>files := map_of [(''/cfg/u1.json'', Json (PList []))]\<rparr>"

text \<open>The same system with a second VPN profile \<open>u3\<close> whose metadata file is no JSON.\<close>

definition example_broken :: nm_settings where
  "example_broken =
     \<lparr>connection_id = ''Broken'', connection_uuid = ''u3'', connection_type = ''vpn'',
      vpn_data = Some []\<rparr>"

definition corrupt_metadata_state :: state where
  "corrupt_metadata_state =
     example_state\<lparr>connections := [example_wifi, example_broken, example_conn],
                    files := map_of [(''/cfg/u3.json'', Text ''{''),
                                     (''/cfg/u1.json'', Json example_metadata)]\<rparr>"

text \<open>The same system with a NetworkManager that refuses every request.\<close>

definition refusing_state :: state where
  "refusing_state = example_state\<lparr>nm_rejects := (\<lambda>r. Some ''Insufficient privileges'')\<rparr>"

text \<open>The metadata object that the finalize step receives.\<close>

definition example_meta :: pyval where
  "example_meta =
     PObject [(''api_base_uri'', PStr ''https://vpn.example.org/api''),
              (''profile_id'', PStr ''internet''),
              (''display_name'', PStr ''Test'')]"

section \<open>The status of a profile\<close>

lemma first_active_find:
  "first_active uuid as =
     (case find (\<lambda>a. uuid = Uuid a) as of
        None \<Rightarrow> Inr None
      | Some a \<Rightarrow>
          (if State a = 2 then
             (case Ip4Config_AddressData a of
                [] \<Rightarrow> Inl (Raise IndexError ''list index out of range'')
              | d4 # r4 \<Rightarrow>
                  (case Ip6Config_AddressData a of
                     [] \<Rightarrow> Inl (Raise IndexError ''list index out of range'')
                   | d6 # r6 \<Rightarrow> Inr (Some (address d4, address d6))))
           else Inr (Some ('''', ''''))))"
  by (induction as) (simp_all add: getitem0_def split: list.splits)

lemma fst_is_provider_connected:
  "fst (is_provider_connected uuid st) = first_active uuid (active st)"
  by (simp add: is_provider_connected_def list_active_def)

text \<open>
  C5: when some active connection has the uuid, the first such connection decides the
  answer of \<^verbatim>\<open>is_provider_connected\<close>. With state code 2 the answer is the \<^verbatim>\<open>address\<close>
  of the first entry of its IPv4 address data and of the first entry of its IPv6 address
  data; with any other state code it is the pair of two empty strings.
\<close>

theorem status_of_first_match:
  assumes "find (\<lambda>a. uuid = Uuid a) (active st) = Some a"
  shows "(State a = 2 \<longrightarrow>
            (\<forall>d4 r4 d6 r6.
               Ip4Config_AddressData a = d4 # r4 \<longrightarrow> Ip6Config_AddressData a = d6 # r6 \<longrightarrow>
               fst (is_provider_connected uuid st) = Inr (Some (address d4, address d6))))
       \<and> (State a \<noteq> 2 \<longrightarrow> fst (is_provider_connected uuid st) = Inr (Some ('''', '''')))"
  using assms by (simp add: fst_is_provider_connected first_active_find)

theorem status_of_first_match_witness:
  "find (\<lambda>a. ''u1'' = Uuid a) (active example_state) = Some example_active
   \<and> State example_active = 2
   \<and> Ip4Config_AddressData example_active = [\<lparr>address = ''10.0.0.5'', prefix = 24\<rparr>]
   \<and> Ip6Config_AddressData example_active = [\<lparr>address = ''fd00::5'', prefix = 64\<rparr>]
   \<and> fst (is_provider_connected ''u1'' example_state) = Inr (Some (''10.0.0.5'', ''fd00::5''))
   \<and> find (\<lambda>a. ''u1'' = Uuid a) (active (example_state\<lparr>active := [example_active\<lparr>State := 1\<rparr>]\<rparr>))
       = Some (example_active\<lparr>State := 1\<rparr>)
   \<and> fst (is_provider_connected ''u1'' (example_state\<lparr>active := [example_active\<lparr>State := 1\<rparr>]\<rparr>))
       = Inr (Some ('''', ''''))"
proof -
  have h: "find (\<lambda>a. ''u1'' = Uuid a) (active example_state) = Some example_active"
    by (simp add: example_state_def example_active_def)
  have h1: "find (\<lambda>a. ''u1'' = Uuid a) (active (example_state\<lparr>active := [example_active\<lparr>State := 1\<rparr>]\<rparr>))
       = Some (example_active\<lparr>State := 1\<rparr>)"
    by (simp add: example_active_def)
  show ?thesis
    using h h1 status_of_first_match [OF h] status_of_first_match [OF h1]
    by (simp add: example_active_def)
qed

text \<open>
  C10: \<^verbatim>\<open>is_provider_connected\<close> does not always return a status. When the first active
  connection with the uuid has state code 2 and its IPv4 or its IPv6 address data is the
  empty list, \<^verbatim>\<open>AddressData[0]\<close> raises \<^verbatim>\<open>IndexError\<close>.
\<close>

theorem status_index_error:
  assumes "find (\<lambda>a. uuid = Uuid a) (active st) = Some a"
    and "State a = 2"
    and "Ip4Config_AddressData a = [] \<or> Ip6Config_AddressData a = []"
  shows "fst (is_provider_connected uuid st) = Inl (Raise IndexError ''list index out of range'')"
  using assms
  by (auto simp add: fst_is_provider_connected first_active_find split: list.splits)

theorem status_index_error_witness:
  "find (\<lambda>a. ''u1'' = Uuid a)
     (active (example_state\<lparr>active := [example_active\<lparr>Ip6Config_AddressData := []\<rparr>]\<rparr>))
     = Some (example_active\<lparr>Ip6Config_AddressData := []\<rparr>)
   \<and> State (example_active\<lparr>Ip6Config_AddressData := []\<rparr>) = 2
   \<and> Ip6Config_AddressData (example_active\<lparr>Ip6Config_AddressData := []\<rparr>) = []
   \<and> fst (is_provider_connected ''u1''
            (example_state\<lparr>active := [example_active\<lparr>Ip6Config_AddressData := []\<rparr>]\<rparr>))
       = Inl (Raise IndexError ''list index out of range'')"
proof -
  have h: "find (\<lambda>a. ''u1'' = Uuid a)
     (active (example_state\<lparr>active := [example_active\<lparr>Ip6Config_AddressData := []\<rparr>]\<rparr>))
     = Some (example_active\<lparr>Ip6Config_AddressData := []\<rparr>)"
    by (simp add: example_active_def)
  have s: "State (example_active\<lparr>Ip6Config_AddressData := []\<rparr>) = 2"
    by (simp add: example_active_def)
  have e: "Ip4Config_AddressData (example_active\<lparr>Ip6Config_AddressData := []\<rparr>) = []
         \<or> Ip6Config_AddressData (example_active\<lparr>Ip6Config_AddressData := []\<rparr>) = []"
    by simp
  show ?thesis
    using h s status_index_error [OF h s e] by simp
qed

section \<open>Deleting a profile\<close>

lemma remove_fault_OSError: "remove_fault st p = Some e \<Longrightarrow> exc_class e = OSError"
  by (auto simp: remove_fault_def split: if_splits)

lemma remove_fault_logger_info [simp]: "remove_fault (logger_info m st) p = remove_fault st p"
  by (simp add: remove_fault_def logger_info_def)

lemma remove_certificate_step:
  assumes "vpn_data_item conn f = Inr p"
  shows "remove_certificate conn f st =
     (Inr (),
      (case remove_fault st p of
         Some e \<Rightarrow>
           st\<lparr>log := log st @ [Info (''removing certificate '' @ p),
                                 Error (''can't remove certificate '' @ p @ '': '' @ str_exc e)],
              removals := removals st @ [p]\<rparr>
       | None \<Rightarrow>
           st\<lparr>log := log st @ [Info (''removing certificate '' @ p)],
              removals := removals st @ [p],
              files := (files st)(p := None)\<rparr>))"
proof (cases "remove_fault st p")
  case None
  with assms show ?thesis
    by (simp add: remove_certificate_def os_remove_def Let_def) (simp add: logger_info_def)
next
  case (Some e)
  with assms remove_fault_OSError[OF Some] show ?thesis
    by (simp add: remove_certificate_def os_remove_def Let_def)
       (simp add: logger_info_def logger_error_def)
qed

lemma remove_certificates_run:
  assumes "\<forall>(f, p) \<in> set kps. vpn_data_item conn f = Inr p"
  shows "fst (remove_certificates conn (map fst kps) st) = Inr ()
       \<and> removals (snd (remove_certificates conn (map fst kps) st)) = removals st @ map snd kps
       \<and> connections (snd (remove_certificates conn (map fst kps) st)) = connections st
       \<and> active (snd (remove_certificates conn (map fst kps) st)) = active st
       \<and> requests (snd (remove_certificates conn (map fst kps) st)) = requests st
       \<and> nm_rejects (snd (remove_certificates conn (map fst kps) st)) = nm_rejects st
       \<and> remove_denied (snd (remove_certificates conn (map fst kps) st)) = remove_denied st
       \<and> ui (snd (remove_certificates conn (map fst kps) st)) = ui st
       \<and> ids_made (snd (remove_certificates conn (map fst kps) st)) = ids_made st
       \<and> (\<forall>q. files (snd (remove_certificates conn (map fst kps) st)) q =
               (if q \<in> snd ` set kps \<and> \<not> remove_denied st q then None else files st q))
       \<and> (\<forall>q e. remove_fault st q = Some e \<longrightarrow>
               remove_fault (snd (remove_certificates conn (map fst kps) st)) q = Some e)
       \<and> (\<exists>l. log (snd (remove_certificates conn (map fst kps) st)) = log st @ l
              \<and> (\<forall>q e. q \<in> snd ` set kps \<longrightarrow> remove_fault st q = Some e \<longrightarrow>
                    Error (''can't remove certificate '' @ q @ '': '' @ str_exc e) \<in> set l))"
  using assms
proof (induction kps arbitrary: st)
  case Nil
  then show ?case by simp
next
  case (Cons kp kps)
  obtain f p where kp: "kp = (f, p)" by (cases kp)
  from Cons.prems kp have fp: "vpn_data_item conn f = Inr p"
    and rest: "\<forall>(f, p) \<in> set kps. vpn_data_item conn f = Inr p" by auto
  define st1 where "st1 = snd (remove_certificate conn f st)"
  have step: "remove_certificate conn f st = (Inr (), st1)"
    using remove_certificate_step[OF fp, of st] by (simp add: st1_def)
  have unf: "remove_certificates conn (map fst (kp # kps)) st = remove_certificates conn (map fst kps) st1"
    using step kp by simp
  have st1_eq: "st1 = (case remove_fault st p of
         Some e \<Rightarrow>
           st\<lparr>log := log st @ [Info (''removing certificate '' @ p),
                                 Error (''can't remove certificate '' @ p @ '': '' @ str_exc e)],
              removals := removals st @ [p]\<rparr>
       | None \<Rightarrow>
           st\<lparr>log := log st @ [Info (''removing certificate '' @ p)],
              removals := removals st @ [p],
              files := (files st)(p := None)\<rparr>)"
    using remove_certificate_step[OF fp, of st] by (simp add: st1_def)
  have frame: "removals st1 = removals st @ [p]" "connections st1 = connections st"
    "active st1 = active st" "requests st1 = requests st" "nm_rejects st1 = nm_rejects st"
    "remove_denied st1 = remove_denied st" "ui st1 = ui st" "ids_made st1 = ids_made st"
    by (simp_all add: st1_eq split: option.splits)
  have files1: "\<And>q. files st1 q = (if q = p \<and> \<not> remove_denied st q then None else files st q)"
    by (auto simp add: st1_eq remove_fault_def split: option.splits if_splits)
  have fault1: "\<And>q e. remove_fault st q = Some e \<Longrightarrow> remove_fault st1 q = Some e"
    by (auto simp add: remove_fault_def files1 frame split: if_splits)
  obtain l1 where l1: "log st1 = log st @ l1"
    and l1p: "\<And>e. remove_fault st p = Some e \<Longrightarrow>
                Error (''can't remove certificate '' @ p @ '': '' @ str_exc e) \<in> set l1"
    by (cases "remove_fault st p") (auto simp add: st1_eq)
  note IH = Cons.IH[OF rest, of st1]
  from IH obtain l where l: "log (snd (remove_certificates conn (map fst kps) st1)) = log st1 @ l"
    and lq: "\<forall>q e. q \<in> snd ` set kps \<longrightarrow> remove_fault st1 q = Some e \<longrightarrow>
                    Error (''can't remove certificate '' @ q @ '': '' @ str_exc e) \<in> set l"
    by blast
  have logs: "\<exists>l'. log (snd (remove_certificates conn (map fst kps) st1)) = log st @ l'
              \<and> (\<forall>q e. q \<in> snd ` set (kp # kps) \<longrightarrow> remove_fault st q = Some e \<longrightarrow>
                    Error (''can't remove certificate '' @ q @ '': '' @ str_exc e) \<in> set l')"
  proof (intro exI[of _ "l1 @ l"] conjI allI impI)
    show "log (snd (remove_certificates conn (map fst kps) st1)) = log st @ l1 @ l"
      using l l1 by simp
  next
    fix q e assume q: "q \<in> snd ` set (kp # kps)" and e: "remove_fault st q = Some e"
    show "Error (''can't remove certificate '' @ q @ '': '' @ str_exc e) \<in> set (l1 @ l)"
    proof (cases "q = p")
      case True
      with l1p e show ?thesis by simp
    next
      case False
      with q kp have "q \<in> snd ` set kps" by auto
      with lq fault1[OF e] show ?thesis by simp
    qed
  qed
  have files: "\<forall>q. files (snd (remove_certificates conn (map fst kps) st1)) q =
               (if q \<in> snd ` set (kp # kps) \<and> \<not> remove_denied st q then None else files st q)"
    using IH by (auto simp add: files1 frame kp)
  have faults: "\<forall>q e. remove_fault st q = Some e \<longrightarrow>
               remove_fault (snd (remove_certificates conn (map fst kps) st1)) q = Some e"
    using IH fault1 by blast
  show ?case
    unfolding unf using IH logs files faults by (simp add: frame kp)
qed

lemma remove_certificate_frame:
  "connections (snd (remove_certificate conn f st)) = connections st
 \<and> active (snd (remove_certificate conn f st)) = active st
 \<and> requests (snd (remove_certificate conn f st)) = requests st
 \<and> nm_rejects (snd (remove_certificate conn f st)) = nm_rejects st
 \<and> ui (snd (remove_certificate conn f st)) = ui st"
  by (simp add: remove_certificate_def os_remove_def logger_info_def logger_error_def Let_def
      split: sum.splits option.splits prod.splits)

lemma remove_certificates_frame:
  "connections (snd (remove_certificates conn fs st)) = connections st
 \<and> active (snd (remove_certificates conn fs st)) = active st
 \<and> requests (snd (remove_certificates conn fs st)) = requests st
 \<and> nm_rejects (snd (remove_certificates conn fs st)) = nm_rejects st
 \<and> ui (snd (remove_certificates conn fs st)) = ui st"
proof (induction fs arbitrary: st)
  case Nil
  show ?case by simp
next
  case (Cons f fs)
  obtain r st1 where step: "remove_certificate conn f st = (r, st1)"
    by (cases "remove_certificate conn f st")
  have fr: "connections st1 = connections st \<and> active st1 = active st
     \<and> requests st1 = requests st \<and> nm_rejects st1 = nm_rejects st \<and> ui st1 = ui st"
    using remove_certificate_frame [of conn f st] step by simp
  show ?case
  proof (cases r)
    case (Inl e)
    with step fr show ?thesis by simp
  next
    case (Inr u)
    with step fr Cons.IH [of st1] show ?thesis by simp
  qed
qed

lemma logger_info_proj [simp]:
  "connections (logger_info m st) = connections st"
  "active (logger_info m st) = active st"
  "nm_rejects (logger_info m st) = nm_rejects st"
  "requests (logger_info m st) = requests st"
  "files (logger_info m st) = files st"
  "remove_denied (logger_info m st) = remove_denied st"
  "removals (logger_info m st) = removals st"
  "ui (logger_info m st) = ui st"
  "ids_made (logger_info m st) = ids_made st"
  "log (logger_info m st) = log st @ [Info m]"
  by (simp_all add: logger_info_def)

lemma logger_error_proj [simp]:
  "connections (logger_error m st) = connections st"
  "active (logger_error m st) = active st"
  "nm_rejects (logger_error m st) = nm_rejects st"
  "requests (logger_error m st) = requests st"
  "files (logger_error m st) = files st"
  "remove_denied (logger_error m st) = remove_denied st"
  "removals (logger_error m st) = removals st"
  "ui (logger_error m st) = ui st"
  "ids_made (logger_error m st) = ids_made st"
  "log (logger_error m st) = log st @ [Error m]"
  by (simp_all add: logger_error_def)

lemma delete_provider_one:
  assumes "filter (\<lambda>c. connection_uuid c = uuid) (connections st) = [conn]"
  shows "delete_provider X uuid st =
     (case remove_certificates conn [''ca'', ''cert'', ''key'', ''ta'']
             (logger_info (''removing certificates for '' @ uuid)
               (logger_info (''deleting profile with uuid '' @ uuid @ '' using NetworkManager'') st)) of
        (Inl e, st2) \<Rightarrow> (Inl e, st2)
      | (Inr u, st2) \<Rightarrow>
          (case Delete conn st2 of
             (Inl e, st3) \<Rightarrow>
               (Inl e, logger_error (''can't remove networkmanager connection: '' @ str_exc e) st3)
           | (Inr u, st3) \<Rightarrow>
               (case os_remove (os_path_join (config_path X) (uuid @ ''.json''))
                       (logger_info (''deleting metadata file ''
                                      @ os_path_join (config_path X) (uuid @ ''.json'')) st3) of
                  (Inl e, st5) \<Rightarrow> (Inr (), logger_error (''can't remove ovpn file: '' @ str_exc e) st5)
                | (Inr u, st5) \<Rightarrow> (Inr (), st5))))"
  unfolding delete_provider_def Let_def logger_info_proj assms list.sel by simp

lemma os_remove_result:
  "os_remove p st =
     (case remove_fault st p of
        Some e \<Rightarrow> (Inl e, st\<lparr>removals := removals st @ [p]\<rparr>)
      | None \<Rightarrow> (Inr (), st\<lparr>removals := removals st @ [p], files := (files st)(p := None)\<rparr>))"
  by (simp add: os_remove_def Let_def)

lemma delete_provider_wrong_count:
  assumes "length (filter (\<lambda>c. connection_uuid c = uuid) (connections st)) \<noteq> 1"
  shows "delete_provider X uuid st =
           (Inl (Raise EduvpnException
                  (str_nat (length (filter (\<lambda>c. connection_uuid c = uuid) (connections st)))
                   @ '' connections matching uid '' @ uuid)),
            logger_info (''deleting profile with uuid '' @ uuid @ '' using NetworkManager'') st)"
  using assms by (simp add: delete_provider_def Let_def)

lemma delete_provider_run:
  assumes one: "filter (\<lambda>c. connection_uuid c = uuid) (connections st) = [conn]"
    and ca: "vpn_data_item conn ''ca'' = Inr ca"
    and cert: "vpn_data_item conn ''cert'' = Inr cert"
    and key: "vpn_data_item conn ''key'' = Inr key"
    and ta: "vpn_data_item conn ''ta'' = Inr ta"
  shows "requests (snd (delete_provider X uuid st)) = requests st @ [ReqDelete conn]
    \<and> (\<forall>p e. p \<in> {ca, cert, key, ta} \<longrightarrow> remove_fault st p = Some e \<longrightarrow>
          Error (''can't remove certificate '' @ p @ '': '' @ str_exc e)
            \<in> set (log (snd (delete_provider X uuid st))))
    \<and> (\<forall>p. p \<in> {ca, cert, key, ta} \<longrightarrow> \<not> remove_denied st p \<longrightarrow>
          files (snd (delete_provider X uuid st)) p = None)
    \<and> (case nm_rejects st (ReqDelete conn) of
          Some m \<Rightarrow>
            fst (delete_provider X uuid st) = Inl (Raise DBusException m)
            \<and> removals (snd (delete_provider X uuid st)) = removals st @ [ca, cert, key, ta]
            \<and> connections (snd (delete_provider X uuid st)) = connections st
        | None \<Rightarrow>
            fst (delete_provider X uuid st) = Inr ()
            \<and> removals (snd (delete_provider X uuid st))
                = removals st @ [ca, cert, key, ta, os_path_join (config_path X) (uuid @ ''.json'')]
            \<and> connections (snd (delete_provider X uuid st)) = remove1 conn (connections st)
            \<and> (\<forall>e. remove_fault st (os_path_join (config_path X) (uuid @ ''.json'')) = Some e \<longrightarrow>
                  Error (''can't remove ovpn file: '' @ str_exc e)
                    \<in> set (log (snd (delete_provider X uuid st))))
            \<and> (\<not> remove_denied st (os_path_join (config_path X) (uuid @ ''.json'')) \<longrightarrow>
                  files (snd (delete_provider X uuid st))
                    (os_path_join (config_path X) (uuid @ ''.json'')) = None))"
proof -
  define st1 where "st1 = logger_info (''removing certificates for '' @ uuid)
               (logger_info (''deleting profile with uuid '' @ uuid @ '' using NetworkManager'') st)"
  define kps where "kps = [(''ca'', ca), (''cert'', cert), (''key'', key), (''ta'', ta)]"
  define st2 where "st2 = snd (remove_certificates conn (map fst kps) st1)"
  define meta where "meta = os_path_join (config_path X) (uuid @ ''.json'')"
  have keys: "\<forall>(f, p) \<in> set kps. vpn_data_item conn f = Inr p"
    using ca cert key ta by (simp add: kps_def)
  note run = remove_certificates_run [OF keys, of st1, folded st2_def]
  have pst1: "removals st1 = removals st" "connections st1 = connections st"
    "requests st1 = requests st" "nm_rejects st1 = nm_rejects st"
    "remove_denied st1 = remove_denied st" "files st1 = files st"
    "\<And>q. remove_fault st1 q = remove_fault st q"
    by (simp_all add: st1_def)
  have rc: "remove_certificates conn [''ca'', ''cert'', ''key'', ''ta''] st1 = (Inr (), st2)"
    using run by (simp add: kps_def st2_def prod_eq_iff)
  have r2: "removals st2 = removals st @ [ca, cert, key, ta]"
    and c2: "connections st2 = connections st" and q2: "requests st2 = requests st"
    and n2: "nm_rejects st2 = nm_rejects st" and d2: "remove_denied st2 = remove_denied st"
    using run by (simp_all add: pst1 kps_def)
  have f2: "\<And>q. files st2 q = (if q \<in> {ca, cert, key, ta} \<and> \<not> remove_denied st q then None else files st q)"
    using run by (simp add: pst1 kps_def)
  have flt2: "\<And>q e. remove_fault st q = Some e \<Longrightarrow> remove_fault st2 q = Some e"
    using run by (simp add: pst1)
  have "\<exists>l. log st2 = log st1 @ l
          \<and> (\<forall>q e. q \<in> snd ` set kps \<longrightarrow> remove_fault st1 q = Some e \<longrightarrow>
                 Error (''can't remove certificate '' @ q @ '': '' @ str_exc e) \<in> set l)"
    using run by blast
  then obtain l where l: "log st2 = log st1 @ l"
    and le0: "\<forall>q e. q \<in> snd ` set kps \<longrightarrow> remove_fault st1 q = Some e \<longrightarrow>
                 Error (''can't remove certificate '' @ q @ '': '' @ str_exc e) \<in> set l"
    by blast
  have le: "\<And>q e. q \<in> {ca, cert, key, ta} \<Longrightarrow> remove_fault st q = Some e \<Longrightarrow>
               Error (''can't remove certificate '' @ q @ '': '' @ str_exc e) \<in> set l"
  proof -
    fix q e assume "q \<in> {ca, cert, key, ta}" and f: "remove_fault st q = Some e"
    then have "q \<in> snd ` set kps" by (auto simp add: kps_def)
    moreover have "remove_fault st1 q = Some e" using f by (simp only: pst1)
    ultimately show "Error (''can't remove certificate '' @ q @ '': '' @ str_exc e) \<in> set l"
      using le0 by blast
  qed
  have dp: "delete_provider X uuid st =
      (case Delete conn st2 of
             (Inl e, st3) \<Rightarrow>
               (Inl e, logger_error (''can't remove networkmanager connection: '' @ str_exc e) st3)
           | (Inr u, st3) \<Rightarrow>
               (case os_remove meta (logger_info (''deleting metadata file '' @ meta) st3) of
                  (Inl e, st5) \<Rightarrow> (Inr (), logger_error (''can't remove ovpn file: '' @ str_exc e) st5)
                | (Inr u, st5) \<Rightarrow> (Inr (), st5)))"
    unfolding delete_provider_one [OF one] st1_def [symmetric] meta_def [symmetric] rc
    by simp
  show ?thesis
  proof (cases "nm_rejects st (ReqDelete conn)")
    case (Some m)
    then have del: "Delete conn st2 = (Inl (Raise DBusException m), st2\<lparr>requests := requests st @ [ReqDelete conn]\<rparr>)"
      by (simp add: Delete_def Let_def n2 q2)
    have fin: "fst (delete_provider X uuid st) = Inl (Raise DBusException m)"
      "removals (snd (delete_provider X uuid st)) = removals st @ [ca, cert, key, ta]"
      "connections (snd (delete_provider X uuid st)) = connections st"
      "requests (snd (delete_provider X uuid st)) = requests st @ [ReqDelete conn]"
      "files (snd (delete_provider X uuid st)) = files st2"
      "log (snd (delete_provider X uuid st)) =
         log st1 @ l @ [Error (''can't remove networkmanager connection: '' @ m)]"
      unfolding dp del by (simp_all add: r2 c2 l)
    have others: "\<And>p. p \<in> {ca, cert, key, ta} \<Longrightarrow> \<not> remove_denied st p \<Longrightarrow>
                    files (snd (delete_provider X uuid st)) p = None"
      by (auto simp add: fin f2)
    have logged: "\<And>p e. p \<in> {ca, cert, key, ta} \<Longrightarrow> remove_fault st p = Some e \<Longrightarrow>
          Error (''can't remove certificate '' @ p @ '': '' @ str_exc e)
            \<in> set (log (snd (delete_provider X uuid st)))"
      using le by (simp add: fin)
    show ?thesis
      using Some fin(1,2,3,4) others logged
      by (simp only: option.case) blast
  next
    case None
    define st3 where "st3 = st2\<lparr>requests := requests st @ [ReqDelete conn],
                      connections := remove1 conn (connections st),
                      active := filter (\<lambda>a. Uuid a \<noteq> connection_uuid conn) (active st2)\<rparr>"
    from None have del: "Delete conn st2 = (Inr (), st3)"
      by (simp add: Delete_def Let_def n2 q2 c2 st3_def)
    have rf3: "remove_fault st3 meta = remove_fault st2 meta"
      by (simp add: remove_fault_def st3_def)
    have p3: "removals st3 = removals st @ [ca, cert, key, ta]"
      "requests st3 = requests st @ [ReqDelete conn]"
      "connections st3 = remove1 conn (connections st)" "files st3 = files st2"
      "log st3 = log st1 @ l"
      by (simp_all add: st3_def r2 l)
    have fin: "fst (delete_provider X uuid st) = Inr ()"
      "removals (snd (delete_provider X uuid st)) = removals st @ [ca, cert, key, ta, meta]"
      "connections (snd (delete_provider X uuid st)) = remove1 conn (connections st)"
      "requests (snd (delete_provider X uuid st)) = requests st @ [ReqDelete conn]"
      "files (snd (delete_provider X uuid st)) =
         (case remove_fault st2 meta of Some e \<Rightarrow> files st2 | None \<Rightarrow> (files st2)(meta := None))"
      "log (snd (delete_provider X uuid st)) =
         log st1 @ l @ [Info (''deleting metadata file '' @ meta)]
         @ (case remove_fault st2 meta of
              Some e \<Rightarrow> [Error (''can't remove ovpn file: '' @ str_exc e)] | None \<Rightarrow> [])"
      unfolding dp del by (simp_all add: os_remove_result rf3 p3 split: option.splits)
    have gone: "\<not> remove_denied st meta \<Longrightarrow> files (snd (delete_provider X uuid st)) meta = None"
      by (auto simp add: fin remove_fault_def d2 split: option.splits if_splits)
    have others: "\<And>p. p \<in> {ca, cert, key, ta} \<Longrightarrow> \<not> remove_denied st p \<Longrightarrow>
                    files (snd (delete_provider X uuid st)) p = None"
      by (auto simp add: fin f2 split: option.splits)
    have logged: "\<And>p e. p \<in> {ca, cert, key, ta} \<Longrightarrow> remove_fault st p = Some e \<Longrightarrow>
          Error (''can't remove certificate '' @ p @ '': '' @ str_exc e)
            \<in> set (log (snd (delete_provider X uuid st)))"
      using le by (simp add: fin)
    have mlogged: "\<And>e. remove_fault st meta = Some e \<Longrightarrow>
          Error (''can't remove ovpn file: '' @ str_exc e) \<in> set (log (snd (delete_provider X uuid st)))"
      using flt2 by (simp add: fin)
    show ?thesis
      unfolding meta_def [symmetric] using None fin(1,2,3,4) gone others logged mlogged
      by (simp only: option.case) blast
  qed
qed

lemma delete_provider_success_active:
  assumes ok: "fst (delete_provider X uuid st) = Inr ()"
  shows "\<forall>a \<in> set (active (snd (delete_provider X uuid st))). Uuid a \<noteq> uuid"
proof -
  have "length (filter (\<lambda>c. connection_uuid c = uuid) (connections st)) = 1"
  proof (rule ccontr)
    assume "length (filter (\<lambda>c. connection_uuid c = uuid) (connections st)) \<noteq> 1"
    from delete_provider_wrong_count [OF this, of X] ok show False by simp
  qed
  then obtain conn where one: "filter (\<lambda>c. connection_uuid c = uuid) (connections st) = [conn]"
    by (cases "filter (\<lambda>c. connection_uuid c = uuid) (connections st)") auto
  then have "conn \<in> set (filter (\<lambda>c. connection_uuid c = uuid) (connections st))" by simp
  then have cu: "connection_uuid conn = uuid" by simp
  define st1 where "st1 = logger_info (''removing certificates for '' @ uuid)
               (logger_info (''deleting profile with uuid '' @ uuid @ '' using NetworkManager'') st)"
  obtain r st2 where rc: "remove_certificates conn [''ca'', ''cert'', ''key'', ''ta''] st1 = (r, st2)"
    by (cases "remove_certificates conn [''ca'', ''cert'', ''key'', ''ta''] st1")
  obtain d st3 where del: "Delete conn st2 = (d, st3)"
    by (cases "Delete conn st2")
  note dp = delete_provider_one [OF one, of X, folded st1_def, unfolded rc]
  from ok dp obtain u where r: "r = Inr u" by (cases r) simp_all
  from ok dp r del obtain v where d: "d = Inr v" by (cases d) simp_all
  have a3: "\<forall>a \<in> set (active st3). Uuid a \<noteq> uuid"
    using del d cu by (auto simp add: Delete_def Let_def split: option.splits)
  have "active (snd (delete_provider X uuid st)) = active st3"
    by (simp add: dp r del d os_remove_result split: option.splits)
  with a3 show ?thesis by simp
qed

text \<open>
  C1: \<^verbatim>\<open>delete_provider\<close> counts the connections whose uuid is the given one. When the
  count is not one it raises \<^verbatim>\<open>EduvpnException\<close> with the count in its text, and nothing
  has been changed: the files, the connection table and the active connections are as
  before, and neither \<^verbatim>\<open>os.remove\<close> nor NetworkManager has been called.
\<close>

theorem delete_provider_count_guard:
  assumes "length (filter (\<lambda>c. connection_uuid c = uuid) (connections st)) \<noteq> 1"
  shows "fst (delete_provider X uuid st) =
           Inl (Raise EduvpnException
                 (str_nat (length (filter (\<lambda>c. connection_uuid c = uuid) (connections st)))
                  @ '' connections matching uid '' @ uuid))
       \<and> files (snd (delete_provider X uuid st)) = files st
       \<and> connections (snd (delete_provider X uuid st)) = connections st
       \<and> active (snd (delete_provider X uuid st)) = active st
       \<and> removals (snd (delete_provider X uuid st)) = removals st
       \<and> requests (snd (delete_provider X uuid st)) = requests st"
  using delete_provider_wrong_count [OF assms, of X] by simp

theorem delete_provider_count_guard_witness:
  "length (filter (\<lambda>c. connection_uuid c = ''u9'') (connections example_state)) \<noteq> 1
   \<and> fst (delete_provider example_externals ''u9'' example_state)
       = Inl (Raise EduvpnException ''0 connections matching uid u9'')
   \<and> files (snd (delete_provider example_externals ''u9'' example_state)) = files example_state
   \<and> connections (snd (delete_provider example_externals ''u9'' example_state))
       = connections example_state
   \<and> removals (snd (delete_provider example_externals ''u9'' example_state)) = []
   \<and> requests (snd (delete_provider example_externals ''u9'' example_state)) = []"
proof -
  have h: "length (filter (\<lambda>c. connection_uuid c = ''u9'') (connections example_state)) \<noteq> 1"
    by (simp add: example_state_def example_conn_def example_wifi_def)
  have f: "filter (\<lambda>c. connection_uuid c = ''u9'') (connections example_state) = []"
    by (simp add: example_state_def example_conn_def example_wifi_def)
  have e: "removals example_state = []" "requests example_state = []"
    by (simp_all add: example_state_def)
  show ?thesis
    using h delete_provider_count_guard [OF h, of example_externals] by (simp add: f e)
qed

text \<open>
  C2: when exactly one connection has the uuid and its \<^verbatim>\<open>vpn.data\<close> names the four
  credential files, \<^verbatim>\<open>delete_provider\<close> calls \<^verbatim>\<open>os.remove\<close> on all four, in the order ca,
  cert, key, ta, whichever of the calls fail. Every file whose removal fails (it is missing
  or may not be removed) gets an error line in the log, and every file that may be removed
  is gone afterwards. Then the connection is deleted. When NetworkManager refuses, its error
  is the result of \<^verbatim>\<open>delete_provider\<close>, the connection table is as before and the metadata
  file is not touched. When it accepts, the metadata file is removed too, a failure of that
  removal is logged, and \<^verbatim>\<open>delete_provider\<close> returns normally.
\<close>

theorem delete_provider_failure_policy:
  assumes one: "filter (\<lambda>c. connection_uuid c = uuid) (connections st) = [conn]"
    and ca: "vpn_data_item conn ''ca'' = Inr ca"
    and cert: "vpn_data_item conn ''cert'' = Inr cert"
    and key: "vpn_data_item conn ''key'' = Inr key"
    and ta: "vpn_data_item conn ''ta'' = Inr ta"
  shows "requests (snd (delete_provider X uuid st)) = requests st @ [ReqDelete conn]
    \<and> (\<forall>p e. p \<in> {ca, cert, key, ta} \<longrightarrow> remove_fault st p = Some e \<longrightarrow>
          Error (''can't remove certificate '' @ p @ '': '' @ str_exc e)
            \<in> set (log (snd (delete_provider X uuid st))))
    \<and> (\<forall>p. p \<in> {ca, cert, key, ta} \<longrightarrow> \<not> remove_denied st p \<longrightarrow>
          files (snd (delete_provider X uuid st)) p = None)
    \<and> (case nm_rejects st (ReqDelete conn) of
          Some m \<Rightarrow>
            fst (delete_provider X uuid st) = Inl (Raise DBusException m)
            \<and> removals (snd (delete_provider X uuid st)) = removals st @ [ca, cert, key, ta]
            \<and> connections (snd (delete_provider X uuid st)) = connections st
        | None \<Rightarrow>
            fst (delete_provider X uuid st) = Inr ()
            \<and> removals (snd (delete_provider X uuid st))
                = removals st @ [ca, cert, key, ta, os_path_join (config_path X) (uuid @ ''.json'')]
            \<and> connections (snd (delete_provider X uuid st)) = remove1 conn (connections st)
            \<and> (\<forall>e. remove_fault st (os_path_join (config_path X) (uuid @ ''.json'')) = Some e \<longrightarrow>
                  Error (''can't remove ovpn file: '' @ str_exc e)
                    \<in> set (log (snd (delete_provider X uuid st))))
            \<and> (\<not> remove_denied st (os_path_join (config_path X) (uuid @ ''.json'')) \<longrightarrow>
                  files (snd (delete_provider X uuid st))
                    (os_path_join (config_path X) (uuid @ ''.json'')) = None))"
  using assms by (rule delete_provider_run)

theorem delete_provider_failure_policy_witness:
  "filter (\<lambda>c. connection_uuid c = ''u1'') (connections example_state) = [example_conn]
   \<and> vpn_data_item example_conn ''ca'' = Inr ''/c/u1_ca''
   \<and> vpn_data_item example_conn ''cert'' = Inr ''/c/u1_cert''
   \<and> vpn_data_item example_conn ''key'' = Inr ''/c/u1_key''
   \<and> vpn_data_item example_conn ''ta'' = Inr ''/c/u1_ta''
   \<and> files example_state ''/c/u1_ca'' = None
   \<and> remove_denied example_state ''/c/u1_key''
   \<and> nm_rejects example_state (ReqDelete example_conn) = None
   \<and> fst (delete_provider example_externals ''u1'' example_state) = Inr ()
   \<and> removals (snd (delete_provider example_externals ''u1'' example_state))
       = [''/c/u1_ca'', ''/c/u1_cert'', ''/c/u1_key'', ''/c/u1_ta'', ''/cfg/u1.json'']
   \<and> connections (snd (delete_provider example_externals ''u1'' example_state)) = [example_wifi]
   \<and> files (snd (delete_provider example_externals ''u1'' example_state)) ''/c/u1_cert'' = None
   \<and> files (snd (delete_provider example_externals ''u1'' example_state)) ''/c/u1_ta'' = None
   \<and> files (snd (delete_provider example_externals ''u1'' example_state)) ''/cfg/u1.json'' = None
   \<and> Error (''can't remove certificate /c/u1_ca: [Errno 2] No such file or directory: ''
             @ quote ''/c/u1_ca'')
       \<in> set (log (snd (delete_provider example_externals ''u1'' example_state)))
   \<and> Error (''can't remove certificate /c/u1_key: [Errno 13] Permission denied: ''
             @ quote ''/c/u1_key'')
       \<in> set (log (snd (delete_provider example_externals ''u1'' example_state)))
   \<and> nm_rejects refusing_state (ReqDelete example_conn) = Some ''Insufficient privileges''
   \<and> fst (delete_provider example_externals ''u1'' refusing_state)
       = Inl (Raise DBusException ''Insufficient privileges'')
   \<and> removals (snd (delete_provider example_externals ''u1'' refusing_state))
       = [''/c/u1_ca'', ''/c/u1_cert'', ''/c/u1_key'', ''/c/u1_ta'']
   \<and> connections (snd (delete_provider example_externals ''u1'' refusing_state))
       = [example_wifi, example_conn]"
proof -
  have one: "filter (\<lambda>c. connection_uuid c = ''u1'') (connections example_state) = [example_conn]"
    by (simp add: example_state_def example_conn_def example_wifi_def)
  have ca: "vpn_data_item example_conn ''ca'' = Inr ''/c/u1_ca''"
    and cert: "vpn_data_item example_conn ''cert'' = Inr ''/c/u1_cert''"
    and key: "vpn_data_item example_conn ''key'' = Inr ''/c/u1_key''"
    and ta: "vpn_data_item example_conn ''ta'' = Inr ''/c/u1_ta''"
    by (simp_all add: vpn_data_item_def getitem_def example_conn_def)
  have env: "files example_state ''/c/u1_ca'' = None" "remove_denied example_state ''/c/u1_key''"
    "nm_rejects example_state (ReqDelete example_conn) = None"
    "\<not> remove_denied example_state ''/c/u1_cert''" "\<not> remove_denied example_state ''/c/u1_ta''"
    "\<not> remove_denied example_state ''/cfg/u1.json''"
    "removals example_state = []"
    "remove1 example_conn (connections example_state) = [example_wifi]"
    by (simp_all add: example_state_def example_conn_def example_wifi_def)
  have faults: "remove_fault example_state ''/c/u1_ca''
                  = Some (Raise OSError (''[Errno 2] No such file or directory: '' @ quote ''/c/u1_ca''))"
    "remove_fault example_state ''/c/u1_key''
                  = Some (Raise OSError (''[Errno 13] Permission denied: '' @ quote ''/c/u1_key''))"
    by (simp_all add: remove_fault_def example_state_def)
  have mp: "os_path_join (config_path example_externals) (''u1'' @ ''.json'') = ''/cfg/u1.json''"
    by (simp add: os_path_join_def example_externals_def)
  note T = delete_provider_failure_policy [OF one ca cert key ta, of example_externals]
  have c4: "fst (delete_provider example_externals ''u1'' example_state) = Inr ()
            \<and> removals (snd (delete_provider example_externals ''u1'' example_state))
                = removals example_state @ [''/c/u1_ca'', ''/c/u1_cert'', ''/c/u1_key'', ''/c/u1_ta'',
                     os_path_join (config_path example_externals) (''u1'' @ ''.json'')]
            \<and> connections (snd (delete_provider example_externals ''u1'' example_state))
                = remove1 example_conn (connections example_state)
            \<and> (\<forall>e. remove_fault example_state
                       (os_path_join (config_path example_externals) (''u1'' @ ''.json'')) = Some e \<longrightarrow>
                  Error (''can't remove ovpn file: '' @ str_exc e)
                    \<in> set (log (snd (delete_provider example_externals ''u1'' example_state))))
            \<and> (\<not> remove_denied example_state
                       (os_path_join (config_path example_externals) (''u1'' @ ''.json'')) \<longrightarrow>
                  files (snd (delete_provider example_externals ''u1'' example_state))
                    (os_path_join (config_path example_externals) (''u1'' @ ''.json'')) = None)"
    using T [THEN conjunct2, THEN conjunct2, THEN conjunct2] unfolding env(3) option.case .
  have gone: "\<forall>p. p \<in> {''/c/u1_ca'', ''/c/u1_cert'', ''/c/u1_key'', ''/c/u1_ta''} \<longrightarrow>
                \<not> remove_denied example_state p \<longrightarrow>
                files (snd (delete_provider example_externals ''u1'' example_state)) p = None"
    using T [THEN conjunct2, THEN conjunct2, THEN conjunct1] .
  have logged: "\<forall>p e. p \<in> {''/c/u1_ca'', ''/c/u1_cert'', ''/c/u1_key'', ''/c/u1_ta''} \<longrightarrow>
                remove_fault example_state p = Some e \<longrightarrow>
                Error (''can't remove certificate '' @ p @ '': '' @ str_exc e)
                  \<in> set (log (snd (delete_provider example_externals ''u1'' example_state)))"
    using T [THEN conjunct2, THEN conjunct1] .
  have res: "fst (delete_provider example_externals ''u1'' example_state) = Inr ()"
    "removals (snd (delete_provider example_externals ''u1'' example_state))
       = [''/c/u1_ca'', ''/c/u1_cert'', ''/c/u1_key'', ''/c/u1_ta'', ''/cfg/u1.json'']"
    "connections (snd (delete_provider example_externals ''u1'' example_state)) = [example_wifi]"
    using c4 unfolding mp env(7,8) by simp_all
  have m: "files (snd (delete_provider example_externals ''u1'' example_state)) ''/cfg/u1.json'' = None"
    using c4 env(6) unfolding mp by blast
  have g: "files (snd (delete_provider example_externals ''u1'' example_state)) ''/c/u1_cert'' = None"
    "files (snd (delete_provider example_externals ''u1'' example_state)) ''/c/u1_ta'' = None"
    using gone [rule_format, of "''/c/u1_cert''"] gone [rule_format, of "''/c/u1_ta''"] env(4,5)
    by simp_all
  have l1: "Error (''can't remove certificate '' @ ''/c/u1_ca'' @ '': ''
              @ str_exc (Raise OSError (''[Errno 2] No such file or directory: '' @ quote ''/c/u1_ca'')))
       \<in> set (log (snd (delete_provider example_externals ''u1'' example_state)))"
    using logged [rule_format, OF _ faults(1)] by simp
  have l2: "Error (''can't remove certificate '' @ ''/c/u1_key'' @ '': ''
              @ str_exc (Raise OSError (''[Errno 13] Permission denied: '' @ quote ''/c/u1_key'')))
       \<in> set (log (snd (delete_provider example_externals ''u1'' example_state)))"
    using logged [rule_format, OF _ faults(2)] by simp
  have one': "filter (\<lambda>c. connection_uuid c = ''u1'') (connections refusing_state) = [example_conn]"
    by (simp add: refusing_state_def example_state_def example_conn_def example_wifi_def)
  have env': "nm_rejects refusing_state (ReqDelete example_conn) = Some ''Insufficient privileges''"
    "removals refusing_state = []"
    "connections refusing_state = [example_wifi, example_conn]"
    by (simp_all add: refusing_state_def example_state_def)
  note T' = delete_provider_failure_policy [OF one' ca cert key ta, of example_externals]
  have c4': "fst (delete_provider example_externals ''u1'' refusing_state)
              = Inl (Raise DBusException ''Insufficient privileges'')
            \<and> removals (snd (delete_provider example_externals ''u1'' refusing_state))
                = removals refusing_state @ [''/c/u1_ca'', ''/c/u1_cert'', ''/c/u1_key'', ''/c/u1_ta'']
            \<and> connections (snd (delete_provider example_externals ''u1'' refusing_state))
                = connections refusing_state"
    using T' [THEN conjunct2, THEN conjunct2, THEN conjunct2] unfolding env'(1) option.case .
  have res': "fst (delete_provider example_externals ''u1'' refusing_state)
              = Inl (Raise DBusException ''Insufficient privileges'')"
    "removals (snd (delete_provider example_externals ''u1'' refusing_state))
       = [''/c/u1_ca'', ''/c/u1_cert'', ''/c/u1_key'', ''/c/u1_ta'']"
    "connections (snd (delete_provider example_externals ''u1'' refusing_state))
       = [example_wifi, example_conn]"
    using c4' unfolding env'(2,3) by simp_all
  have first: "filter (\<lambda>c. connection_uuid c = ''u1'') (connections example_state) = [example_conn]
   \<and> vpn_data_item example_conn ''ca'' = Inr ''/c/u1_ca''
   \<and> vpn_data_item example_conn ''cert'' = Inr ''/c/u1_cert''
   \<and> vpn_data_item example_conn ''key'' = Inr ''/c/u1_key''
   \<and> vpn_data_item example_conn ''ta'' = Inr ''/c/u1_ta''
   \<and> files example_state ''/c/u1_ca'' = None
   \<and> remove_denied example_state ''/c/u1_key''
   \<and> nm_rejects example_state (ReqDelete example_conn) = None
   \<and> fst (delete_provider example_externals ''u1'' example_state) = Inr ()
   \<and> removals (snd (delete_provider example_externals ''u1'' example_state))
       = [''/c/u1_ca'', ''/c/u1_cert'', ''/c/u1_key'', ''/c/u1_ta'', ''/cfg/u1.json'']
   \<and> connections (snd (delete_provider example_externals ''u1'' example_state)) = [example_wifi]
   \<and> files (snd (delete_provider example_externals ''u1'' example_state)) ''/c/u1_cert'' = None
   \<and> files (snd (delete_provider example_externals ''u1'' example_state)) ''/c/u1_ta'' = None
   \<and> files (snd (delete_provider example_externals ''u1'' example_state)) ''/cfg/u1.json'' = None
   \<and> Error (''can't remove certificate /c/u1_ca: [Errno 2] No such file or directory: ''
             @ quote ''/c/u1_ca'')
       \<in> set (log (snd (delete_provider example_externals ''u1'' example_state)))
   \<and> Error (''can't remove certificate /c/u1_key: [Errno 13] Permission denied: ''
             @ quote ''/c/u1_key'')
       \<in> set (log (snd (delete_provider example_externals ''u1'' example_state)))"
    using one ca cert key ta env(1,2,3) res m g l1 l2 by simp
  have second: "nm_rejects refusing_state (ReqDelete example_conn) = Some ''Insufficient privileges''
   \<and> fst (delete_provider example_externals ''u1'' refusing_state)
       = Inl (Raise DBusException ''Insufficient privileges'')
   \<and> removals (snd (delete_provider example_externals ''u1'' refusing_state))
       = [''/c/u1_ca'', ''/c/u1_cert'', ''/c/u1_key'', ''/c/u1_ta'']
   \<and> connections (snd (delete_provider example_externals ''u1'' refusing_state))
       = [example_wifi, example_conn]"
    by (intro conjI) (rule env'(1) res')+
  show ?thesis
    using first second by (simp only: conj_assoc)
qed

section \<open>A profile that matches no active connection\<close>

lemma first_active_unmatched:
  "(\<forall>a \<in> set as. Uuid a \<noteq> uuid) \<Longrightarrow> first_active uuid as = Inr None"
  by (induction as) auto

text \<open>
  C6: when no active connection has the uuid, \<^verbatim>\<open>is_provider_connected\<close> returns \<^verbatim>\<open>None\<close>,
  the answer for a disconnected profile. That is the case after every \<^verbatim>\<open>delete_provider\<close>
  that returned normally.
\<close>

theorem status_unmatched:
  "((\<forall>a \<in> set (active st). Uuid a \<noteq> uuid) \<longrightarrow>
      fst (is_provider_connected uuid st) = Inr None)
 \<and> (fst (delete_provider X uuid st) = Inr () \<longrightarrow>
      fst (is_provider_connected uuid (snd (delete_provider X uuid st))) = Inr None)"
  using delete_provider_success_active [of X uuid st]
  by (auto simp add: fst_is_provider_connected first_active_unmatched)

theorem status_unmatched_witness:
  "filter (\<lambda>a. Uuid a = ''u9'') (active example_state) = []
   \<and> fst (is_provider_connected ''u9'' example_state) = Inr None
   \<and> fst (delete_provider example_externals ''u1'' example_state) = Inr ()
   \<and> fst (is_provider_connected ''u1'' example_state) = Inr (Some (''10.0.0.5'', ''fd00::5''))
   \<and> fst (is_provider_connected ''u1'' (snd (delete_provider example_externals ''u1'' example_state)))
       = Inr None"
proof -
  have h: "\<forall>a \<in> set (active example_state). Uuid a \<noteq> ''u9''"
    by (simp add: example_state_def example_active_def)
  have hf: "filter (\<lambda>a. Uuid a = ''u9'') (active example_state) = []"
    by (simp add: example_state_def example_active_def)
  have one: "filter (\<lambda>c. connection_uuid c = ''u1'') (connections example_state) = [example_conn]"
    by (simp add: example_state_def example_conn_def example_wifi_def)
  have items: "vpn_data_item example_conn ''ca'' = Inr ''/c/u1_ca''"
    "vpn_data_item example_conn ''cert'' = Inr ''/c/u1_cert''"
    "vpn_data_item example_conn ''key'' = Inr ''/c/u1_key''"
    "vpn_data_item example_conn ''ta'' = Inr ''/c/u1_ta''"
    by (simp_all add: vpn_data_item_def getitem_def example_conn_def)
  have acc: "nm_rejects example_state (ReqDelete example_conn) = None"
    by (simp add: example_state_def)
  have d: "fst (delete_provider example_externals ''u1'' example_state) = Inr ()"
    using delete_provider_run [OF one items, of example_externals] by (simp add: acc)
  have before: "fst (is_provider_connected ''u1'' example_state) = Inr (Some (''10.0.0.5'', ''fd00::5''))"
    by (simp add: fst_is_provider_connected example_state_def example_active_def getitem0_def)
  have a: "fst (is_provider_connected ''u9'' example_state) = Inr None"
    using h status_unmatched [of example_state "''u9''" example_externals] by blast
  have b: "fst (is_provider_connected ''u1'' (snd (delete_provider example_externals ''u1'' example_state)))
       = Inr None"
    using d status_unmatched [of example_state "''u1''" example_externals] by blast
  show ?thesis
    by (intro conjI) (rule hf a d before b)+
qed

section \<open>Disconnecting a profile\<close>

lemma deactivate_all_run:
  assumes "\<forall>a \<in> set conns. nm_rejects st (ReqDeactivateConnection a) = None"
  shows "deactivate_all conns st =
           (Inr (), st\<lparr>requests := requests st @ map ReqDeactivateConnection conns\<rparr>)"
  using assms
proof (induction conns arbitrary: st)
  case Nil
  show ?case by simp
next
  case (Cons a conns)
  have "\<forall>b \<in> set conns. nm_rejects (st\<lparr>requests := requests st @ [ReqDeactivateConnection a]\<rparr>)
            (ReqDeactivateConnection b) = None"
    using Cons.prems by simp
  from Cons.IH [OF this] Cons.prems show ?case
    by (simp add: DeactivateConnection_def Let_def)
qed

text \<open>
  C8: \<^verbatim>\<open>disconnect_provider\<close> takes the active connections whose uuid is the given one.
  When there is none it raises \<^verbatim>\<open>EduvpnException\<close> and has sent nothing to NetworkManager.
  Otherwise, NetworkManager accepting each request, it asks for the deactivation of every
  one of them, in their order, and returns normally.
\<close>

theorem disconnect_provider_requests:
  "(filter (\<lambda>i. Uuid i = uuid) (active st) = [] \<longrightarrow>
      fst (disconnect_provider uuid st)
        = Inl (Raise EduvpnException (''no active connection found with uuid '' @ uuid))
      \<and> requests (snd (disconnect_provider uuid st)) = requests st
      \<and> active (snd (disconnect_provider uuid st)) = active st
      \<and> connections (snd (disconnect_provider uuid st)) = connections st)
 \<and> (filter (\<lambda>i. Uuid i = uuid) (active st) \<noteq> [] \<longrightarrow>
      (\<forall>a \<in> set (active st). Uuid a = uuid \<longrightarrow> nm_rejects st (ReqDeactivateConnection a) = None) \<longrightarrow>
      fst (disconnect_provider uuid st) = Inr ()
      \<and> requests (snd (disconnect_provider uuid st))
          = requests st @ map ReqDeactivateConnection (filter (\<lambda>i. Uuid i = uuid) (active st)))"
proof -
  define st0 where "st0 = logger_info (''Disconnecting profile with uuid '' @ uuid @ '' using NetworkManager'') st"
  have p: "active st0 = active st" "requests st0 = requests st" "nm_rejects st0 = nm_rejects st"
    "connections st0 = connections st"
    by (simp_all add: st0_def logger_info_def)
  show ?thesis
  proof (intro conjI impI)
    assume "filter (\<lambda>i. Uuid i = uuid) (active st) \<noteq> []"
      and acc: "\<forall>a \<in> set (active st). Uuid a = uuid \<longrightarrow> nm_rejects st (ReqDeactivateConnection a) = None"
    then have ne: "filter (\<lambda>i. Uuid i = uuid) (active st0) \<noteq> []" by (simp add: p)
    have "\<forall>a \<in> set (filter (\<lambda>i. Uuid i = uuid) (active st0)). nm_rejects st0 (ReqDeactivateConnection a) = None"
      using acc by (simp add: p)
    from deactivate_all_run [OF this] ne
    have run: "disconnect_provider uuid st =
        (Inr (), st0\<lparr>requests := requests st0 @ map ReqDeactivateConnection (filter (\<lambda>i. Uuid i = uuid) (active st0))\<rparr>)"
      unfolding disconnect_provider_def Let_def st0_def [symmetric] by simp
    show "fst (disconnect_provider uuid st) = Inr ()" using run by simp
    show "requests (snd (disconnect_provider uuid st))
          = requests st @ map ReqDeactivateConnection (filter (\<lambda>i. Uuid i = uuid) (active st))"
      using run by (simp add: p)
  qed (simp_all add: disconnect_provider_def Let_def logger_info_def)
qed

theorem disconnect_provider_requests_witness:
  "filter (\<lambda>i. Uuid i = ''u9'') (active example_state) = []
   \<and> fst (disconnect_provider ''u9'' example_state)
       = Inl (Raise EduvpnException ''no active connection found with uuid u9'')
   \<and> requests (snd (disconnect_provider ''u9'' example_state)) = []
   \<and> filter (\<lambda>i. Uuid i = ''u1'') (active example_state) \<noteq> []
   \<and> nm_rejects example_state (ReqDeactivateConnection example_active) = None
   \<and> fst (disconnect_provider ''u1'' example_state) = Inr ()
   \<and> requests (snd (disconnect_provider ''u1'' example_state))
       = [ReqDeactivateConnection example_active]"
proof -
  have none: "filter (\<lambda>i. Uuid i = ''u9'') (active example_state) = []"
    and some: "filter (\<lambda>i. Uuid i = ''u1'') (active example_state) = [example_active]"
    by (simp_all add: example_state_def example_active_def)
  have acc: "\<forall>a \<in> set (active example_state).
         Uuid a = ''u1'' \<longrightarrow> nm_rejects example_state (ReqDeactivateConnection a) = None"
    by (simp add: example_state_def)
  have acc1: "nm_rejects example_state (ReqDeactivateConnection example_active) = None"
    by (simp add: example_state_def)
  have q: "requests example_state = []"
    by (simp add: example_state_def)
  show ?thesis
    using none some acc acc1 disconnect_provider_requests [of "''u9''" example_state]
      disconnect_provider_requests [of "''u1''" example_state]
    by (simp add: q)
qed

section \<open>Refreshing the token\<close>

lemma json_load_file_log [simp]:
  "json_load_file p (logger_info m st) = json_load_file p st"
  "json_load_file p (logger_error m st) = json_load_file p st"
  by (simp_all add: json_load_file_def)

lemma write_denied_logger_info [simp]:
  "write_denied (logger_info m st) = write_denied st"
  by (simp add: logger_info_def)

lemma json_load_file_serialisable:
  "json_load_file p st = Inr v \<Longrightarrow> json_serialisable v"
  by (auto simp add: json_load_file_def split: option.splits file_content.splits if_splits)

lemma json_serialisable_update:
  "json_serialisable (PDict d) \<Longrightarrow> json_serialisable v
     \<Longrightarrow> json_serialisable (PDict (AList.update k v d))"
  by (induction d) auto

text \<open>
  The three ways in which \<^verbatim>\<open>with open(path, 'w') as f: json.dump(v, f)\<close> ends: the
  file cannot be opened and is as before; the value is written; or the file has been
  emptied and \<^verbatim>\<open>json.dump\<close> raises, and the file holds the beginning of a document.
\<close>

lemma json_dump_file_cases:
  "json_dump_file v p st =
     (if write_denied st p then
        (Inl (Raise OSError (''[Errno 13] Permission denied: '' @ quote p)), st)
      else if json_serialisable v then (Inr (), st\<lparr>files := (files st)(p \<mapsto> Json v)\<rparr>)
      else (Inl (Raise TypeError ''Object of type object is not JSON serializable''),
            st\<lparr>files := (files st)(p \<mapsto> Partial v)\<rparr>))"
  by (simp add: json_dump_file_def open_for_writing_def json_dump_def)

lemma update_token_dict:
  assumes load: "json_load_file (os_path_join (config_path X) (uuid @ ''.json'')) st = Inr (PDict d)"
    and token: "json_serialisable token"
    and writable: "\<not> write_denied st (os_path_join (config_path X) (uuid @ ''.json''))"
  shows "update_token X uuid token st =
           (Inr (),
            (logger_info (''writing new token information for '' @ uuid) st)
              \<lparr>files := (files st)(os_path_join (config_path X) (uuid @ ''.json'')
                          \<mapsto> Json (PDict (AList.update ''token'' token d)))\<rparr>)"
proof -
  have "json_serialisable (PDict (AList.update ''token'' token d))"
    using json_load_file_serialisable [OF load] token by (rule json_serialisable_update)
  then show ?thesis
    using load writable
    by (simp add: update_token_def Let_def json_dump_file_cases)
qed

text \<open>
  The two ways in which the write of \<^verbatim>\<open>update_token\<close> fails. A token that JSON cannot
  serialise costs the record: the file has been emptied when \<^verbatim>\<open>json.dump\<close> raises. A file
  that cannot be opened for writing is left as it is.
\<close>

lemma json_unserialisable_update:
  "\<not> json_serialisable v \<Longrightarrow> \<not> json_serialisable (PDict (AList.update k v d))"
  by (induction d) auto

lemma update_token_unserialisable:
  assumes load: "json_load_file (os_path_join (config_path X) (uuid @ ''.json'')) st = Inr (PDict d)"
    and token: "\<not> json_serialisable token"
    and writable: "\<not> write_denied st (os_path_join (config_path X) (uuid @ ''.json''))"
  shows "fst (update_token X uuid token st)
           = Inl (Raise TypeError ''Object of type object is not JSON serializable'')"
    and "json_load_file (os_path_join (config_path X) (uuid @ ''.json''))
           (snd (update_token X uuid token st))
           = Inl (Raise ValueError ''Expecting value: line 1 column 1 (char 0)'')"
proof -
  have n: "\<not> json_serialisable (PDict (AList.update ''token'' token d))"
    using token by (rule json_unserialisable_update)
  have run: "update_token X uuid token st =
      (Inl (Raise TypeError ''Object of type object is not JSON serializable''),
       (logger_info (''writing new token information for '' @ uuid) st)
         \<lparr>files := (files st)(os_path_join (config_path X) (uuid @ ''.json'')
                     \<mapsto> Partial (PDict (AList.update ''token'' token d)))\<rparr>)"
    using n load writable
    by (simp add: update_token_def Let_def json_dump_file_cases)
  show "fst (update_token X uuid token st)
           = Inl (Raise TypeError ''Object of type object is not JSON serializable'')"
    by (simp add: run)
  show "json_load_file (os_path_join (config_path X) (uuid @ ''.json''))
           (snd (update_token X uuid token st))
           = Inl (Raise ValueError ''Expecting value: line 1 column 1 (char 0)'')"
    by (simp add: run json_load_file_def)
qed

lemma update_token_write_denied:
  assumes load: "json_load_file (os_path_join (config_path X) (uuid @ ''.json'')) st = Inr (PDict d)"
    and denied: "write_denied st (os_path_join (config_path X) (uuid @ ''.json''))"
  shows "fst (update_token X uuid token st)
           = Inl (Raise OSError (''[Errno 13] Permission denied: ''
                                 @ quote (os_path_join (config_path X) (uuid @ ''.json''))))"
    and "files (snd (update_token X uuid token st)) = files st"
  using load denied
  by (simp_all add: update_token_def Let_def json_dump_file_cases)

lemma example_metadata_path:
  "os_path_join (config_path example_externals) (''u1'' @ ''.json'') = ''/cfg/u1.json''"
  "os_path_join (config_path example_externals) ''u1.json'' = ''/cfg/u1.json''"
  by (simp_all add: os_path_join_def example_externals_def)




section \<open>Listing the profiles\<close>

lemma yield_providers_files:
  "files (snd (yield_providers X conns st)) = files st
 \<and> connections (snd (yield_providers X conns st)) = connections st
 \<and> active (snd (yield_providers X conns st)) = active st
 \<and> requests (snd (yield_providers X conns st)) = requests st
 \<and> removals (snd (yield_providers X conns st)) = removals st"
proof (induction conns arbitrary: st)
  case Nil
  show ?case by simp
next
  case (Cons conn conns)
  show ?case
  proof (cases "json_load_file (os_path_join (config_path X) (connection_uuid conn @ ''.json'')) st")
    case (Inl e)
    have "snd (yield_providers X (conn # conns) st)
        = snd (yield_providers X conns
              (logger_error (''can't load metadata file: '' @ str_exc e) st))"
      using Inl by (simp add: Let_def split: prod.splits)
    then show ?thesis
      using Cons.IH [of "logger_error (''can't load metadata file: '' @ str_exc e) st"] by simp
  next
    case (Inr metadata)
    have "snd (yield_providers X (conn # conns) st) = snd (yield_providers X conns st)"
      using Inr by (simp split: prod.splits)
    then show ?thesis using Cons.IH [of st] by simp
  qed
qed

lemma yield_providers_map:
  "fst (yield_providers X conns st) =
     map (\<lambda>conn. case json_load_file (os_path_join (config_path X) (connection_uuid conn @ ''.json'')) st of
                   Inl e \<Rightarrow> placeholder conn
                 | Inr metadata \<Rightarrow> metadata) conns"
proof (induction conns arbitrary: st)
  case Nil
  show ?case by simp
next
  case (Cons conn conns)
  show ?case
  proof (cases "json_load_file (os_path_join (config_path X) (connection_uuid conn @ ''.json'')) st")
    case (Inl e)
    have "fst (yield_providers X (conn # conns) st)
        = placeholder conn # fst (yield_providers X conns
              (logger_error (''can't load metadata file: '' @ str_exc e) st))"
      using Inl by (simp add: Let_def split: prod.splits)
    then show ?thesis using Inl by (simp add: Cons.IH)
  next
    case (Inr metadata)
    have "fst (yield_providers X (conn # conns) st) = metadata # fst (yield_providers X conns st)"
      using Inr by (simp split: prod.splits)
    then show ?thesis using Inr by (simp add: Cons.IH)
  qed
qed

text \<open>
  C7: \<^verbatim>\<open>list_providers\<close> yields one entry for every connection of type \<^verbatim>\<open>vpn\<close>, in
  the order of the connection table. The entry is the metadata of the connection when its
  metadata file loads, and otherwise the placeholder with the uuid of the connection, its
  NetworkManager name as display name, no icon data and the connection type
  \<^verbatim>\<open>unknown\<close>. A file that does not load never ends the enumeration, and listing changes
  neither the files nor the connection table.
\<close>

theorem list_providers_degrades:
  "fst (list_providers X st) =
     map (\<lambda>conn. case json_load_file (os_path_join (config_path X) (connection_uuid conn @ ''.json'')) st of
                   Inl e \<Rightarrow> PDict [(''uuid'', PStr (connection_uuid conn)),
                                    (''display_name'', PStr (connection_id conn)),
                                    (''icon_data'', PNone),
                                    (''connection_type'', PStr ''unknown'')]
                 | Inr metadata \<Rightarrow> metadata)
         (filter (\<lambda>c. connection_type c = ''vpn'') (connections st))
   \<and> files (snd (list_providers X st)) = files st
   \<and> connections (snd (list_providers X st)) = connections st"
  by (simp add: list_providers_def Let_def yield_providers_map [unfolded placeholder_def]
      yield_providers_files)
theorem list_providers_degrades_witness:
  "json_load_file ''/cfg/u3.json'' corrupt_metadata_state
     = Inl (Raise ValueError ''Expecting value: line 1 column 1 (char 0)'')
   \<and> fst (list_providers example_externals corrupt_metadata_state) =
      [PDict [(''uuid'', PStr ''u3''), (''display_name'', PStr ''Broken''),
              (''icon_data'', PNone), (''connection_type'', PStr ''unknown'')],
       example_metadata]"
proof -
  have p: "os_path_join (config_path example_externals) (connection_uuid example_broken @ ''.json'')
             = ''/cfg/u3.json''"
    "os_path_join (config_path example_externals) (connection_uuid example_conn @ ''.json'')
             = ''/cfg/u1.json''"
    by (simp_all add: os_path_join_def example_externals_def example_broken_def example_conn_def)
  have f: "filter (\<lambda>c. connection_type c = ''vpn'') (connections corrupt_metadata_state)
             = [example_broken, example_conn]"
    by (simp add: corrupt_metadata_state_def example_wifi_def example_broken_def example_conn_def)
  have l: "json_load_file ''/cfg/u3.json'' corrupt_metadata_state
             = Inl (Raise ValueError ''Expecting value: line 1 column 1 (char 0)'')"
    "json_load_file ''/cfg/u1.json'' corrupt_metadata_state = Inr example_metadata"
    by (simp_all add: json_load_file_def corrupt_metadata_state_def example_metadata_def)
  have u: "connection_uuid example_broken = ''u3''" "connection_id example_broken = ''Broken''"
    by (simp_all add: example_broken_def)
  have "fst (list_providers example_externals corrupt_metadata_state) =
      [PDict [(''uuid'', PStr ''u3''), (''display_name'', PStr ''Broken''),
              (''icon_data'', PNone), (''connection_type'', PStr ''unknown'')],
       example_metadata]"
    using list_providers_degrades [of example_externals corrupt_metadata_state, THEN conjunct1]
    unfolding f list.map p l sum.case unfolding u .
  with l(1) show ?thesis by (rule_tac conjI)
qed

section \<open>Updating the configuration of a profile\<close>

lemma write_cert_str:
  "write_cert X (PStr s) kind uuid st =
     (Inr (cert_file X kind uuid), st\<lparr>files := (files st)(cert_file X kind uuid \<mapsto> Text s)\<rparr>)"
  by (simp add: write_cert_def Let_def)

lemma vpn_data_item_update_paths:
  "vpn_data_item (s\<lparr>vpn_data := Some (update_paths c k a t d)\<rparr>) ''cert'' = Inr c"
  "vpn_data_item (s\<lparr>vpn_data := Some (update_paths c k a t d)\<rparr>) ''key'' = Inr k"
  "vpn_data_item (s\<lparr>vpn_data := Some (update_paths c k a t d)\<rparr>) ''ca'' = Inr a"
  "vpn_data_item (s\<lparr>vpn_data := Some (update_paths c k a t d)\<rparr>) ''ta'' = Inr t"
  by (simp_all add: vpn_data_item_def getitem_def update_paths_def update_conv')

lemma vpn_data_item_update_paths_other:
  assumes "f \<notin> {''cert'', ''key'', ''ca'', ''ta''}"
  shows "vpn_data_item (s\<lparr>vpn_data := Some (update_paths c k a t d)\<rparr>) f = getitem d f"
  using assms by (simp add: vpn_data_item_def getitem_def update_paths_def update_conv')

lemma update_config_provider_run:
  assumes old: "find (\<lambda>c. connection_uuid c = uuid) (connections st) = Some old"
    and cert: "vpn_data_item old ''cert'' = Inr old_cert"
    and key: "vpn_data_item old ''key'' = Inr old_key"
    and parse: "parse_ovpn X config = Inr config_dict"
    and ca: "map_of config_dict ''ca'' = Some (PStr ca)"
    and ta: "map_of config_dict ''tls-auth'' = Some (PStr ta)"
    and nm: "ovpn_to_nm X (AList.delete ''tls-auth'' (AList.delete ''ca'' config_dict)) uuid display_name
               = Inr nm_config"
    and vpn: "vpn_data nm_config = Some d"
    and del: "nm_rejects st (ReqDelete old) = None"
    and add: "\<forall>s. nm_rejects st (ReqAddConnection s) = None"
  shows "update_config_provider X uuid display_name config st =
     (Inr (),
      st\<lparr>log := log st @ [Info (''updating config for '' @ format_arg X display_name
                                   @ '' ('' @ uuid @ '')''),
                             Info (''generating or updating OpenVPN configuration with name ''
                                   @ connection_id nm_config)],
         files := (files st)(cert_file X ''ca'' uuid \<mapsto> Text ca, cert_file X ''ta'' uuid \<mapsto> Text ta),
         requests := requests st @
            [ReqDelete old,
             ReqAddConnection (nm_config\<lparr>vpn_data := Some (update_paths old_cert old_key
                  (cert_file X ''ca'' uuid) (cert_file X ''ta'' uuid) d)\<rparr>)],
         connections := remove1 old (connections st) @
            [nm_config\<lparr>vpn_data := Some (update_paths old_cert old_key
                  (cert_file X ''ca'' uuid) (cert_file X ''ta'' uuid) d)\<rparr>],
         active := filter (\<lambda>a. Uuid a \<noteq> connection_uuid old) (active st)\<rparr>)"
proof -
  have pop1: "dict_pop config_dict ''ca'' = Inr (PStr ca, AList.delete ''ca'' config_dict)"
    using ca by (simp add: dict_pop_def)
  have "map_of (AList.delete ''ca'' config_dict) ''tls-auth'' = Some (PStr ta)"
    using ta by (simp add: delete_conv')
  then have pop2: "dict_pop (AList.delete ''ca'' config_dict) ''tls-auth''
      = Inr (PStr ta, AList.delete ''tls-auth'' (AList.delete ''ca'' config_dict))"
    by (simp add: dict_pop_def)
  have get: "\<And>s. connections s = connections st \<Longrightarrow> GetConnectionByUuid uuid s = Inr old"
    using old by (simp add: GetConnectionByUuid_def)
  show ?thesis
    unfolding update_config_provider_def Let_def
    by (simp add: parse pop1 pop2 write_cert_str nm get vpn cert key del add
        Delete_def AddConnection_def insert_config_def Let_def logger_info_def)
qed

text \<open>
  C3: let a connection with the uuid exist, with \<^verbatim>\<open>cert\<close> and \<^verbatim>\<open>key\<close> entries in its
  \<^verbatim>\<open>vpn.data\<close>, let the new configuration parse and hold the texts of \<^verbatim>\<open>ca\<close> and
  \<^verbatim>\<open>tls-auth\<close>, let the translation give settings with a \<^verbatim>\<open>vpn\<close> block, and let
  NetworkManager accept the two requests. Then \<^verbatim>\<open>update_config_provider\<close> returns
  normally; it has sent the deletion of the old connection and, after it, the addition of a
  replacement, which stands in the table where the old one was taken out. The \<^verbatim>\<open>cert\<close> and
  \<^verbatim>\<open>key\<close> entries of the replacement are those of the old connection, its \<^verbatim>\<open>ca\<close> and
  \<^verbatim>\<open>ta\<close> entries are the paths of the files just written, which hold the new texts, and
  everything else in it is what the translation produced.
\<close>

theorem update_config_provider_keeps_cert_key:
  assumes old: "find (\<lambda>c. connection_uuid c = uuid) (connections st) = Some old"
    and cert: "vpn_data_item old ''cert'' = Inr old_cert"
    and key: "vpn_data_item old ''key'' = Inr old_key"
    and parse: "parse_ovpn X config = Inr config_dict"
    and ca: "map_of config_dict ''ca'' = Some (PStr ca)"
    and ta: "map_of config_dict ''tls-auth'' = Some (PStr ta)"
    and nm: "ovpn_to_nm X (AList.delete ''tls-auth'' (AList.delete ''ca'' config_dict)) uuid display_name
               = Inr nm_config"
    and vpn: "vpn_data nm_config = Some d"
    and del: "nm_rejects st (ReqDelete old) = None"
    and add: "\<forall>s. nm_rejects st (ReqAddConnection s) = None"
  shows "fst (update_config_provider X uuid display_name config st) = Inr ()
    \<and> (\<exists>new. connections (snd (update_config_provider X uuid display_name config st))
                 = remove1 old (connections st) @ [new]
          \<and> requests (snd (update_config_provider X uuid display_name config st))
                 = requests st @ [ReqDelete old, ReqAddConnection new]
          \<and> vpn_data_item new ''cert'' = vpn_data_item old ''cert''
          \<and> vpn_data_item new ''key'' = vpn_data_item old ''key''
          \<and> vpn_data_item new ''ca'' = Inr (cert_file X ''ca'' uuid)
          \<and> vpn_data_item new ''ta'' = Inr (cert_file X ''ta'' uuid)
          \<and> (\<forall>f. f \<notin> {''cert'', ''key'', ''ca'', ''ta''} \<longrightarrow>
                 vpn_data_item new f = vpn_data_item nm_config f)
          \<and> connection_id new = connection_id nm_config
          \<and> connection_uuid new = connection_uuid nm_config
          \<and> connection_type new = connection_type nm_config)
    \<and> files (snd (update_config_provider X uuid display_name config st)) (cert_file X ''ta'' uuid)
         = Some (Text ta)
    \<and> (cert_file X ''ca'' uuid \<noteq> cert_file X ''ta'' uuid \<longrightarrow>
          files (snd (update_config_provider X uuid display_name config st)) (cert_file X ''ca'' uuid)
            = Some (Text ca))"
proof -
  define new where "new = nm_config\<lparr>vpn_data := Some (update_paths old_cert old_key
                  (cert_file X ''ca'' uuid) (cert_file X ''ta'' uuid) d)\<rparr>"
  note run = update_config_provider_run [OF assms, folded new_def]
  have other: "\<forall>f. f \<notin> {''cert'', ''key'', ''ca'', ''ta''} \<longrightarrow>
                 vpn_data_item new f = vpn_data_item nm_config f"
  proof (intro allI impI)
    fix f :: string
    assume f: "f \<notin> {''cert'', ''key'', ''ca'', ''ta''}"
    have "vpn_data_item nm_config f = getitem d f"
      by (simp add: vpn_data_item_def vpn)
    with vpn_data_item_update_paths_other [OF f] show "vpn_data_item new f = vpn_data_item nm_config f"
      by (simp add: new_def)
  qed
  have items: "vpn_data_item new ''cert'' = vpn_data_item old ''cert''"
    "vpn_data_item new ''key'' = vpn_data_item old ''key''"
    "vpn_data_item new ''ca'' = Inr (cert_file X ''ca'' uuid)"
    "vpn_data_item new ''ta'' = Inr (cert_file X ''ta'' uuid)"
    by (simp_all add: new_def vpn_data_item_update_paths cert key)
  have ids: "connection_id new = connection_id nm_config"
    "connection_uuid new = connection_uuid nm_config"
    "connection_type new = connection_type nm_config"
    by (simp_all add: new_def)
  have conns: "connections (snd (update_config_provider X uuid display_name config st))
                 = remove1 old (connections st) @ [new]"
    and reqs: "requests (snd (update_config_provider X uuid display_name config st))
                 = requests st @ [ReqDelete old, ReqAddConnection new]"
    and ok: "fst (update_config_provider X uuid display_name config st) = Inr ()"
    and fta: "files (snd (update_config_provider X uuid display_name config st)) (cert_file X ''ta'' uuid)
         = Some (Text ta)"
    and fca: "cert_file X ''ca'' uuid \<noteq> cert_file X ''ta'' uuid \<longrightarrow>
          files (snd (update_config_provider X uuid display_name config st)) (cert_file X ''ca'' uuid)
            = Some (Text ca)"
    by (simp_all add: run)
  show ?thesis
    by (intro conjI exI [of _ new]) (rule ok conns reqs items other ids fta fca)+
qed

theorem update_config_provider_keeps_cert_key_witness:
  "find (\<lambda>c. connection_uuid c = ''u1'') (connections example_state) = Some example_conn
   \<and> vpn_data_item example_conn ''cert'' = Inr ''/c/u1_cert''
   \<and> vpn_data_item example_conn ''key'' = Inr ''/c/u1_key''
   \<and> parse_ovpn example_externals (PStr ''vpn.example.org'')
       = Inr [(''remote'', PStr ''vpn.example.org''), (''ca'', PStr ''CA2''), (''tls-auth'', PStr ''TA2'')]
   \<and> nm_rejects example_state (ReqDelete example_conn) = None
   \<and> (\<forall>s. nm_rejects example_state (ReqAddConnection s) = None)
   \<and> fst (update_config_provider example_externals ''u1'' (PStr ''Test'') (PStr ''vpn.example.org'')
            example_state) = Inr ()
   \<and> (\<exists>new. connections (snd (update_config_provider example_externals ''u1'' (PStr ''Test'')
                                 (PStr ''vpn.example.org'') example_state)) = [example_wifi, new]
          \<and> requests (snd (update_config_provider example_externals ''u1'' (PStr ''Test'')
                                 (PStr ''vpn.example.org'') example_state))
               = [ReqDelete example_conn, ReqAddConnection new]
          \<and> vpn_data_item new ''cert'' = Inr ''/c/u1_cert''
          \<and> vpn_data_item new ''key'' = Inr ''/c/u1_key''
          \<and> vpn_data_item new ''ca'' = Inr ''/c/u1_ca''
          \<and> vpn_data_item new ''ta'' = Inr ''/c/u1_ta'')
   \<and> files (snd (update_config_provider example_externals ''u1'' (PStr ''Test'')
                    (PStr ''vpn.example.org'') example_state)) ''/c/u1_ta'' = Some (Text ''TA2'')"
proof -
  define cfg where "cfg = [(''remote'', PStr ''vpn.example.org''), (''ca'', PStr ''CA2''),
                           (''tls-auth'', PStr ''TA2'')]"
  define nmc where "nmc = \<lparr>connection_id = ''New'', connection_uuid = ''u1'', connection_type = ''vpn'',
               vpn_data = Some [(''remote'', ''vpn.example.org'')]\<rparr>"
  have old: "find (\<lambda>c. connection_uuid c = ''u1'') (connections example_state) = Some example_conn"
    by (simp add: example_state_def example_conn_def example_wifi_def)
  have cert: "vpn_data_item example_conn ''cert'' = Inr ''/c/u1_cert''"
    and key: "vpn_data_item example_conn ''key'' = Inr ''/c/u1_key''"
    by (simp_all add: vpn_data_item_def getitem_def example_conn_def)
  have parse: "parse_ovpn example_externals (PStr ''vpn.example.org'') = Inr cfg"
    by (simp add: example_externals_def cfg_def)
  have ca: "map_of cfg ''ca'' = Some (PStr ''CA2'')"
    and ta: "map_of cfg ''tls-auth'' = Some (PStr ''TA2'')"
    by (simp_all add: cfg_def)
  have nm: "ovpn_to_nm example_externals (AList.delete ''tls-auth'' (AList.delete ''ca'' cfg)) ''u1''
              (PStr ''Test'') = Inr nmc"
    by (simp add: example_externals_def nmc_def)
  have vpn: "vpn_data nmc = Some [(''remote'', ''vpn.example.org'')]"
    by (simp add: nmc_def)
  have del: "nm_rejects example_state (ReqDelete example_conn) = None"
    and add: "\<forall>s. nm_rejects example_state (ReqAddConnection s) = None"
    by (simp_all add: example_state_def)
  have env: "remove1 example_conn (connections example_state) = [example_wifi]"
    "requests example_state = []"
    "cert_file example_externals ''ca'' ''u1'' = ''/c/u1_ca''"
    "cert_file example_externals ''ta'' ''u1'' = ''/c/u1_ta''"
    by (simp_all add: example_state_def example_conn_def example_wifi_def example_externals_def)
  note T = update_config_provider_keeps_cert_key [OF old cert key parse ca ta nm vpn del add,
      unfolded env cert key]
  have ok: "fst (update_config_provider example_externals ''u1'' (PStr ''Test'')
                  (PStr ''vpn.example.org'') example_state) = Inr ()"
    using T [THEN conjunct1] .
  have fta: "files (snd (update_config_provider example_externals ''u1'' (PStr ''Test'')
                    (PStr ''vpn.example.org'') example_state)) ''/c/u1_ta'' = Some (Text ''TA2'')"
    using T [THEN conjunct2, THEN conjunct2, THEN conjunct1] .
  from T [THEN conjunct2, THEN conjunct1]
  obtain new where n: "connections (snd (update_config_provider example_externals ''u1'' (PStr ''Test'')
                                 (PStr ''vpn.example.org'') example_state)) = [example_wifi] @ [new]
          \<and> requests (snd (update_config_provider example_externals ''u1'' (PStr ''Test'')
                                 (PStr ''vpn.example.org'') example_state))
               = [] @ [ReqDelete example_conn, ReqAddConnection new]
          \<and> vpn_data_item new ''cert'' = Inr ''/c/u1_cert''
          \<and> vpn_data_item new ''key'' = Inr ''/c/u1_key''
          \<and> vpn_data_item new ''ca'' = Inr ''/c/u1_ca''
          \<and> vpn_data_item new ''ta'' = Inr ''/c/u1_ta''
          \<and> (\<forall>f. f \<notin> {''cert'', ''key'', ''ca'', ''ta''} \<longrightarrow>
                 vpn_data_item new f = vpn_data_item nmc f)
          \<and> connection_id new = connection_id nmc
          \<and> connection_uuid new = connection_uuid nmc
          \<and> connection_type new = connection_type nmc" ..
  have n1: "connections (snd (update_config_provider example_externals ''u1'' (PStr ''Test'')
                                 (PStr ''vpn.example.org'') example_state)) = [example_wifi, new]"
    using n [THEN conjunct1] by simp
  have n2: "requests (snd (update_config_provider example_externals ''u1'' (PStr ''Test'')
                                 (PStr ''vpn.example.org'') example_state))
               = [ReqDelete example_conn, ReqAddConnection new]"
    using n [THEN conjunct2, THEN conjunct1] by simp
  have n3: "vpn_data_item new ''cert'' = Inr ''/c/u1_cert''"
    using n [THEN conjunct2, THEN conjunct2, THEN conjunct1] .
  have n4: "vpn_data_item new ''key'' = Inr ''/c/u1_key''"
    using n [THEN conjunct2, THEN conjunct2, THEN conjunct2, THEN conjunct1] .
  have n5: "vpn_data_item new ''ca'' = Inr ''/c/u1_ca''"
    using n [THEN conjunct2, THEN conjunct2, THEN conjunct2, THEN conjunct2, THEN conjunct1] .
  have n6: "vpn_data_item new ''ta'' = Inr ''/c/u1_ta''"
    using n [THEN conjunct2, THEN conjunct2, THEN conjunct2, THEN conjunct2, THEN conjunct2,
        THEN conjunct1] .
  show ?thesis
    by (intro conjI exI [of _ new])
       (rule old cert key parse [unfolded cfg_def] del add ok n1 n2 n3 n4 n5 n6 fta)+
qed

section \<open>The background step of the finalize flow\<close>

lemma idle_add_proj [simp]:
  "connections (idle_add ev st) = connections st"
  "active (idle_add ev st) = active st"
  "requests (idle_add ev st) = requests st"
  "files (idle_add ev st) = files st"
  "removals (idle_add ev st) = removals st"
  "log (idle_add ev st) = log st"
  "ids_made (idle_add ev st) = ids_made st"
  "ui (idle_add ev st) = ui st @ [ev]"
  by (simp_all add: idle_add_def)

lemma str_nat_12: "str_nat 12 = ''12''"
  by simp

lemma bind_positional_single:
  "bind_positional ''store_provider'' store_provider_params [v] =
     Inl (Raise TypeError
           (''store_provider() missing 12 required positional arguments: ''
            @ argument_names (drop 1 store_provider_params)))"
proof -
  have len: "length store_provider_params = 13"
    by (simp add: store_provider_params_def)
  have "length (drop 1 store_provider_params) = 12"
    by (simp add: len)
  then show ?thesis
    unfolding bind_positional_def Let_def
    by (simp add: len plural_def str_nat_12 del: str_nat.simps)
qed

lemma call_store_provider_single:
  "call_store_provider X [v] st =
     (Inl (Raise TypeError
            (''store_provider() missing 12 required positional arguments: ''
             @ argument_names (drop 1 store_provider_params))), st)"
  by (simp add: call_store_provider_def bind_positional_single)

lemma store_and_notify_raises:
  "store_and_notify X v st =
     (Inl (Raise TypeError
            (''store_provider() missing 12 required positional arguments: ''
             @ argument_names (drop 1 store_provider_params))), st)"
  by (simp add: store_and_notify_def call_store_provider_single)

lemma background_cases:
  "background X meta oauth st =
     (case fetch X meta oauth of
        Inl e \<Rightarrow>
          (Inl e, st\<lparr>ui := ui st @ [ErrorHelper ''can't finalize configuration''
                                       (type_name e @ '': '' @ str_exc e), DialogHide]\<rparr>)
      | Inr meta1 \<Rightarrow>
          (Inl (Raise TypeError
                 (''store_provider() missing 12 required positional arguments: ''
                  @ argument_names (drop 1 store_provider_params))),
           st\<lparr>ui := ui st @ [ErrorHelper ''can't store configuration''
                     (''TypeError '' @ ''store_provider() missing 12 required positional arguments: ''
                      @ argument_names (drop 1 store_provider_params)), DialogHide]\<rparr>))"
  by (simp add: background_def store_and_notify_raises idle_add_def split: sum.splits)

text \<open>With thirteen arguments the call reaches the body of \<^verbatim>\<open>store_provider\<close>.\<close>

lemma call_store_provider_thirteen:
  "call_store_provider X [a0, a1, a2, a3, a4, a5, a6, a7, a8, a9, a10, a11, a12] st =
     store_provider X a0 a1 a2 a3 a4 a5 a6 a7 a8 a9 a10 a11 a12 st"
  by (simp add: call_store_provider_def bind_positional_def store_provider_params_def)

text \<open>
  On the concrete system \<^verbatim>\<open>store_provider\<close>, given its thirteen arguments, stores a
  profile: it returns the new identifier, adds a connection with it and writes the
  metadata file.
\<close>

lemma store_provider_example:
  "fst (store_provider example_externals (PStr ''https://vpn.example.org/api'') (PStr ''internet'')
          (PStr ''Test'') (PDict [(''access_token'', PStr ''t'')]) (PStr ''Secure Internet'')
          (PStr ''distributed'') (PStr ''Internet'') (PBool False) (PStr ''CERT'') (PStr ''KEY'')
          (PStr ''vpn.example.org'') PNone (PStr ''https://vpn.example.org'') example_state)
     = Inr ''id0''"
  "map connection_uuid (connections (snd (store_provider example_externals
          (PStr ''https://vpn.example.org/api'') (PStr ''internet'')
          (PStr ''Test'') (PDict [(''access_token'', PStr ''t'')]) (PStr ''Secure Internet'')
          (PStr ''distributed'') (PStr ''Internet'') (PBool False) (PStr ''CERT'') (PStr ''KEY'')
          (PStr ''vpn.example.org'') PNone (PStr ''https://vpn.example.org'') example_state)))
     = [''u2'', ''u1'', ''id0'']"
  "files (snd (store_provider example_externals
          (PStr ''https://vpn.example.org/api'') (PStr ''internet'')
          (PStr ''Test'') (PDict [(''access_token'', PStr ''t'')]) (PStr ''Secure Internet'')
          (PStr ''distributed'') (PStr ''Internet'') (PBool False) (PStr ''CERT'') (PStr ''KEY'')
          (PStr ''vpn.example.org'') PNone (PStr ''https://vpn.example.org'') example_state))
       ''/cfg/id0.json''
     = Some (Json (PDict [(''uuid'', PStr ''id0''), (''display_name'', PStr ''Test''),
                          (''token'', PDict [(''access_token'', PStr ''t'')])]))"
  by (simp_all add: store_provider_def Let_def example_externals_def example_state_def
      example_conn_def example_wifi_def write_cert_def dict_pop_def mkdir_p_def store_metadata_def
      json_dump_file_def open_for_writing_def json_dump_def os_path_join_def getitem_def
      insert_config_def AddConnection_def
      logger_info_def format_arg_def update_paths_def)

text \<open>
  C9: \<^verbatim>\<open>store_provider\<close> has thirteen parameters and \<^verbatim>\<open>_background\<close> calls it with the
  metadata object alone. So \<^verbatim>\<open>_background\<close> never returns normally and never stores a
  profile: the connection table, the files, the requests sent to NetworkManager, the
  identifiers made and the log are as before. Whenever the first \<^verbatim>\<open>try\<close> block has
  fetched the key pair and the configuration, the call raises the \<^verbatim>\<open>TypeError\<close> for twelve
  missing arguments before the body of \<^verbatim>\<open>store_provider\<close> runs, and the handler shows
  "can't store configuration", hides the dialog and raises the error again.
\<close>

theorem background_never_stores:
  "length store_provider_params = 13
   \<and> (\<exists>e. fst (background X meta oauth st) = Inl e)
   \<and> connections (snd (background X meta oauth st)) = connections st
   \<and> files (snd (background X meta oauth st)) = files st
   \<and> requests (snd (background X meta oauth st)) = requests st
   \<and> ids_made (snd (background X meta oauth st)) = ids_made st
   \<and> log (snd (background X meta oauth st)) = log st
   \<and> (\<forall>meta1. fetch X meta oauth = Inr meta1 \<longrightarrow>
         fst (background X meta oauth st)
           = Inl (Raise TypeError
                   (''store_provider() missing 12 required positional arguments: ''
                    @ argument_names (drop 1 store_provider_params)))
         \<and> ui (snd (background X meta oauth st))
           = ui st @ [ErrorHelper ''can't store configuration''
                        (''TypeError '' @ ''store_provider() missing 12 required positional arguments: ''
                         @ argument_names (drop 1 store_provider_params)),
                      DialogHide])"
proof -
  have len: "length store_provider_params = 13"
    by (simp add: store_provider_params_def)
  show ?thesis
    unfolding background_cases
    by (cases "fetch X meta oauth") (simp_all add: len)
qed

theorem background_never_stores_witness:
  "fetch example_externals example_meta PNone
     = Inr (PObject [(''api_base_uri'', PStr ''https://vpn.example.org/api''),
                     (''profile_id'', PStr ''internet''),
                     (''display_name'', PStr ''Test''),
                     (''cert'', PStr ''CERT''), (''key'', PStr ''KEY''),
                     (''config'', PStr ''vpn.example.org'')])
   \<and> fst (background example_externals example_meta PNone example_state)
       = Inl (Raise TypeError
               (''store_provider() missing 12 required positional arguments: ''
                @ quote ''profile_id'' @ '', '' @ quote ''display_name'' @ '', '' @ quote ''token''
                @ '', '' @ quote ''connection_type'' @ '', '' @ quote ''authorization_type''
                @ '', '' @ quote ''profile_display_name'' @ '', '' @ quote ''two_factor''
                @ '', '' @ quote ''cert'' @ '', '' @ quote ''key'' @ '', '' @ quote ''config''
                @ '', '' @ quote ''icon_data'' @ '', and '' @ quote ''instance_base_uri''))
   \<and> connections (snd (background example_externals example_meta PNone example_state))
       = connections example_state
   \<and> files (snd (background example_externals example_meta PNone example_state))
       = files example_state
   \<and> requests (snd (background example_externals example_meta PNone example_state)) = []"
proof -
  have f: "fetch example_externals example_meta PNone
     = Inr (PObject [(''api_base_uri'', PStr ''https://vpn.example.org/api''),
                     (''profile_id'', PStr ''internet''),
                     (''display_name'', PStr ''Test''),
                     (''cert'', PStr ''CERT''), (''key'', PStr ''KEY''),
                     (''config'', PStr ''vpn.example.org'')])"
    by (simp add: fetch_def getattr_def setattr_def example_externals_def example_meta_def)
  have names: "argument_names (drop 1 store_provider_params)
      = quote ''profile_id'' @ '', '' @ quote ''display_name'' @ '', '' @ quote ''token''
                @ '', '' @ quote ''connection_type'' @ '', '' @ quote ''authorization_type''
                @ '', '' @ quote ''profile_display_name'' @ '', '' @ quote ''two_factor''
                @ '', '' @ quote ''cert'' @ '', '' @ quote ''key'' @ '', '' @ quote ''config''
                @ '', '' @ quote ''icon_data'' @ '', and '' @ quote ''instance_base_uri''"
    by (simp add: store_provider_params_def)
  have q: "requests example_state = []"
    by (simp add: example_state_def)
  note T = background_never_stores [of example_externals example_meta PNone example_state]
  have r: "fst (background example_externals example_meta PNone example_state)
           = Inl (Raise TypeError
                   (''store_provider() missing 12 required positional arguments: ''
                    @ argument_names (drop 1 store_provider_params)))"
    using T f by blast
  have c: "connections (snd (background example_externals example_meta PNone example_state))
       = connections example_state"
    "files (snd (background example_externals example_meta PNone example_state))
       = files example_state"
    "requests (snd (background example_externals example_meta PNone example_state))
       = requests example_state"
    using T by blast+
  show ?thesis
    using f r c unfolding names q by (intro conjI)
qed

end
